theory Spec2Isabelle
  imports Main "HOL-Library.AList"
begin

section \<open>The message protocol of efro.message (\<^verbatim>\<open>_protocol.py\<close>)\<close>

text \<open>
  A shallow embedding of \<^verbatim>\<open>MessageProtocol\<close>: its constructor (the two registries, the
  automatic registration of the built-in responses, the validation of the debug mode) and
  its codec (\<^verbatim>\<open>_encode\<close>, \<^verbatim>\<open>_decode\<close> and the five public methods built on them).

  Every \<^verbatim>\<open>raise\<close> and every \<^verbatim>\<open>assert\<close> of the source is a branch that returns an error
  value. Python drops \<^verbatim>\<open>assert\<close> statements and every \<^verbatim>\<open>if __debug__:\<close> block when the
  interpreter runs optimised (\<^verbatim>\<open>-O\<close>), so the interpreter's \<^verbatim>\<open>__debug__\<close> flag is a
  parameter of the model: an assertion is checked only where the flag is set.
\<close>

subsection \<open>Values\<close>

text \<open>
  What \<^verbatim>\<open>json.loads\<close> returns and \<^verbatim>\<open>json.dumps\<close> takes: \<^verbatim>\<open>None\<close>, booleans, integers,
  strings, lists and dictionaries with string keys. A dictionary is an association list
  in insertion order. Floats are not modelled.
\<close>

datatype json =
    JNull
  | JBool bool
  | JInt int
  | JStr string
  | JArr "json list"
  | JObj "(string \<times> json) list"

text \<open>Modelled from the spec: \<^verbatim>\<open>ErrorType\<close> of \<^verbatim>\<open>efro.message._message\<close>, the enum
  \<^verbatim>\<open>{CLEAN, OTHER}\<close> of an error response.\<close>

datatype ErrorType = OTHER | CLEAN

text \<open>
  Classes. \<^verbatim>\<open>ErrorResponse\<close> and \<^verbatim>\<open>EmptyResponse\<close> are the two built-in response classes
  the source names; every other class is a user class, known by its identity (two
  distinct class objects may share a \<^verbatim>\<open>__name__\<close>), its \<^verbatim>\<open>__name__\<close>, the framework
  classes among its ancestors and what its \<^verbatim>\<open>get_response_types()\<close> returns.
\<close>

datatype ancestor = Message_base | Response_base | ErrorResponse_base | EmptyResponse_base

datatype pyclass =
    ErrorResponse_cls
  | EmptyResponse_cls
  | UserClass (cls_ident: nat) (cls_name: string) (cls_ancestors: "ancestor list")
      (cls_response_types: "pyclass list")

text \<open>The values of dataclass attributes, and an instance: its class and its attributes.
  Two instances are equal when they have the same class and equal attributes, as two
  dataclass instances are.\<close>

datatype pyval =
    PyNone
  | PyBool bool
  | PyInt int
  | PyStr string
  | PyErrorType ErrorType
  | PyList "pyval list"

datatype pyobject = Instance (type_of: pyclass) (attrs: "(string \<times> pyval) list")

text \<open>The exceptions of the source, one constructor for each raise site, holding the
  values its message interpolates.\<close>

datatype error =
    AssertionError
  | ValueError_response_type pyclass
  | ValueError_duplicate_names
  | TypeError_not_registered string pyclass
  | TypeError_unhashable
  | TypeError_list_index
  | RuntimeError_type_key string pyclass
  | KeyError string
  | AttributeError string
  | JSONDecodeError
  | DataclassIOError
  | UnregisteredMessageIDError string json
  | CleanError pyval
  | RemoteError pyval

text \<open>An exception handed to \<^verbatim>\<open>encode_error_response\<close>: the source observes whether it is
  a \<^verbatim>\<open>CleanError\<close> and its \<^verbatim>\<open>str()\<close>.\<close>

record exception =
  is_CleanError :: bool
  str_of :: string

subsection \<open>The interpreter and the external collaborators\<close>

text \<open>
  The code this module calls and does not define: the standard \<^verbatim>\<open>json\<close> module and
  \<^verbatim>\<open>efro.dataclassio\<close>. They are parameters. A function that may raise returns an option,
  \<open>None\<close> when it raises. \<open>dataclass_from_dict\<close> returns the attributes of the instance
  it builds; the instance is of the class it was asked for.
\<close>

record pyenv =
  debug :: bool
  json_dumps :: "json \<Rightarrow> string"
  json_loads :: "string \<Rightarrow> json option"
  is_ioprepped_dataclass :: "pyclass \<Rightarrow> bool"
  dataclass_to_dict :: "pyobject \<Rightarrow> (string \<times> json) list option"
  dataclass_from_dict :: "pyclass \<Rightarrow> json \<Rightarrow> (string \<times> pyval) list option"

subsection \<open>Classes and instances\<close>

fun name_of :: "pyclass \<Rightarrow> string" where
  "name_of ErrorResponse_cls = ''ErrorResponse''"
| "name_of EmptyResponse_cls = ''EmptyResponse''"
| "name_of (UserClass i n anc rts) = n"

fun issubclass_Message :: "pyclass \<Rightarrow> bool" where
  "issubclass_Message (UserClass i n anc rts) = (Message_base \<in> set anc)"
| "issubclass_Message c = False"

fun issubclass_ErrorResponse :: "pyclass \<Rightarrow> bool" where
  "issubclass_ErrorResponse ErrorResponse_cls = True"
| "issubclass_ErrorResponse EmptyResponse_cls = False"
| "issubclass_ErrorResponse (UserClass i n anc rts) = (ErrorResponse_base \<in> set anc)"

fun issubclass_EmptyResponse :: "pyclass \<Rightarrow> bool" where
  "issubclass_EmptyResponse EmptyResponse_cls = True"
| "issubclass_EmptyResponse ErrorResponse_cls = False"
| "issubclass_EmptyResponse (UserClass i n anc rts) = (EmptyResponse_base \<in> set anc)"

fun issubclass_Response :: "pyclass \<Rightarrow> bool" where
  "issubclass_Response (UserClass i n anc rts) =
     (Response_base \<in> set anc \<or> ErrorResponse_base \<in> set anc \<or> EmptyResponse_base \<in> set anc)"
| "issubclass_Response c = True"

text \<open>\<^verbatim>\<open>m_type.get_response_types()\<close>: a class method of \<^verbatim>\<open>Message\<close>, so a class that does
  not derive from \<^verbatim>\<open>Message\<close> has no such attribute.\<close>

fun get_response_types :: "pyclass \<Rightarrow> error + pyclass list" where
  "get_response_types (UserClass i n anc rts) =
     (if Message_base \<in> set anc then Inr rts else Inl (AttributeError ''get_response_types''))"
| "get_response_types c = Inl (AttributeError ''get_response_types'')"

text \<open>Modelled from the spec: the two built-in responses of \<^verbatim>\<open>efro.message._message\<close>.
  An error response carries \<^verbatim>\<open>error_message\<close> and \<^verbatim>\<open>error_type\<close>; an empty response
  carries no data.\<close>

definition ErrorResponse :: "string \<Rightarrow> ErrorType \<Rightarrow> pyobject" where
  "ErrorResponse error_message error_type =
     Instance ErrorResponse_cls
       [(''error_message'', PyStr error_message), (''error_type'', PyErrorType error_type)]"

definition EmptyResponse :: pyobject where
  "EmptyResponse = Instance EmptyResponse_cls []"

definition getattr :: "pyobject \<Rightarrow> string \<Rightarrow> error + pyval" where
  "getattr obj a = (case map_of (attrs obj) a of None \<Rightarrow> Inl (AttributeError a) | Some v \<Rightarrow> Inr v)"

subsection \<open>The protocol and its constructor\<close>

record MessageProtocol =
  message_types_by_id :: "(int \<times> pyclass) list"
  message_ids_by_type :: "(pyclass \<times> int) list"
  response_types_by_id :: "(int \<times> pyclass) list"
  response_ids_by_type :: "(pyclass \<times> int) list"
  type_key :: "string option"
  preserve_clean_errors :: bool
  log_remote_exceptions :: bool
  trusted_sender :: bool

type_synonym registry = "(int \<times> pyclass) list \<times> (pyclass \<times> int) list"

text \<open>
  The two registration loops of \<^verbatim>\<open>__init__\<close> differ only in the base class they require,
  which is the parameter \<open>is_base\<close>. The dictionaries are typed \<^verbatim>\<open>dict[int, type]\<close>, so
  \<^verbatim>\<open>assert isinstance(m_id, int)\<close> holds of every key.
\<close>

fun register_types ::
  "pyenv \<Rightarrow> (pyclass \<Rightarrow> bool) \<Rightarrow> (int \<times> pyclass) list \<Rightarrow> registry \<Rightarrow> error + registry" where
  "register_types env is_base [] reg = Inr reg"
| "register_types env is_base ((t_id, tp) # items) (by_id, by_type) =
     (if debug env \<and> \<not> 0 \<le> t_id then Inl AssertionError
      else if debug env \<and> \<not> (is_ioprepped_dataclass env tp \<and> is_base tp) then Inl AssertionError
      else if debug env \<and> map_of by_id t_id \<noteq> None then Inl AssertionError
      else register_types env is_base items
             (AList.update t_id tp by_id, AList.update tp t_id by_type))"

definition reg_if_not :: "pyenv \<Rightarrow> pyclass \<Rightarrow> int \<Rightarrow> registry \<Rightarrow> error + registry" where
  "reg_if_not env reg_tp reg_id reg =
     (case reg of (by_id, by_type) \<Rightarrow>
        if reg_tp \<in> fst ` set by_type then Inr reg
        else if debug env \<and> map_of by_id reg_id \<noteq> None then Inl AssertionError
        else Inr (AList.update reg_id reg_tp by_id, AList.update reg_tp reg_id by_type))"

text \<open>
  The validation of the debug mode. \<^verbatim>\<open>all_response_types\<close> is a Python set; the model keeps
  its elements in the order they were first added and the second loop visits them in
  that order (Python's order is unspecified; whether the loop raises does not depend on
  it, only which of several failing classes raises first).
\<close>

fun collect_response_types :: "(int \<times> pyclass) list \<Rightarrow> pyclass list \<Rightarrow> error + pyclass list" where
  "collect_response_types [] all_response_types = Inr all_response_types"
| "collect_response_types ((m_id, m_type) # items) all_response_types =
     (case get_response_types m_type of
        Inl e \<Rightarrow> Inl e
      | Inr m_rtypes \<Rightarrow>
          if m_rtypes = [] then Inl AssertionError
          else if \<not> distinct m_rtypes then Inl AssertionError
          else collect_response_types items
                 (all_response_types @ filter (\<lambda>r. r \<notin> set all_response_types) m_rtypes))"

fun check_response_types :: "pyenv \<Rightarrow> (pyclass \<times> int) list \<Rightarrow> pyclass list \<Rightarrow> error + unit" where
  "check_response_types env ids_by_type [] = Inr ()"
| "check_response_types env ids_by_type (cls # rest) =
     (if \<not> is_ioprepped_dataclass env cls then Inl AssertionError
      else if \<not> issubclass_Response cls then Inl AssertionError
      else if cls \<notin> fst ` set ids_by_type then Inl (ValueError_response_type cls)
      else check_response_types env ids_by_type rest)"

definition validate ::
  "pyenv \<Rightarrow> (int \<times> pyclass) list \<Rightarrow> (pyclass \<times> int) list \<Rightarrow> (pyclass \<times> int) list \<Rightarrow> error + unit" where
  "validate env message_types m_ids_by_type r_ids_by_type =
     (case collect_response_types message_types [] of
        Inl e \<Rightarrow> Inl e
      | Inr all_response_types \<Rightarrow>
          (case check_response_types env r_ids_by_type all_response_types of
             Inl e \<Rightarrow> Inl e
           | Inr u \<Rightarrow>
               if length (remdups (map (name_of \<circ> fst) m_ids_by_type)) \<noteq> length message_types
               then Inl ValueError_duplicate_names
               else Inr ()))"

definition MessageProtocol_init ::
  "pyenv \<Rightarrow> (int \<times> pyclass) list \<Rightarrow> (int \<times> pyclass) list \<Rightarrow> string option \<Rightarrow> bool \<Rightarrow> bool \<Rightarrow> bool
     \<Rightarrow> error + MessageProtocol" where
  "MessageProtocol_init env message_types response_types tkey preserve log_remote trusted =
     (case register_types env issubclass_Message message_types ([], []) of
        Inl e \<Rightarrow> Inl e
      | Inr (m_by_id, m_by_type) \<Rightarrow>
     (case register_types env issubclass_Response response_types ([], []) of
        Inl e \<Rightarrow> Inl e
      | Inr reg0 \<Rightarrow>
     (case reg_if_not env ErrorResponse_cls (- 1) reg0 of
        Inl e \<Rightarrow> Inl e
      | Inr reg1 \<Rightarrow>
     (case reg_if_not env EmptyResponse_cls (- 2) reg1 of
        Inl e \<Rightarrow> Inl e
      | Inr (r_by_id, r_by_type) \<Rightarrow>
     (case (if debug env then validate env message_types m_by_type r_by_type else Inr ()) of
        Inl e \<Rightarrow> Inl e
      | Inr u \<Rightarrow>
          Inr \<lparr>message_types_by_id = m_by_id, message_ids_by_type = m_by_type,
               response_types_by_id = r_by_id, response_ids_by_type = r_by_type,
               type_key = tkey, preserve_clean_errors = preserve,
               log_remote_exceptions = log_remote, trusted_sender = trusted\<rparr>)))))"

subsection \<open>Encoding\<close>

text \<open>\<^verbatim>\<open>_encode\<close>. The wrapper envelope is \<^verbatim>\<open>{'m': msgdict, 't': m_id}\<close>; with a type key the
  id is stored in the payload's own dictionary.\<close>

definition protocol_encode ::
  "pyenv \<Rightarrow> MessageProtocol \<Rightarrow> pyobject \<Rightarrow> (pyclass \<times> int) list \<Rightarrow> string \<Rightarrow> error + string" where
  "protocol_encode env p message ids_by_type opname =
     (case map_of ids_by_type (type_of message) of
        None \<Rightarrow> Inl (TypeError_not_registered opname (type_of message))
      | Some m_id \<Rightarrow>
          (case dataclass_to_dict env message of
             None \<Rightarrow> Inl DataclassIOError
           | Some msgdict \<Rightarrow>
               (case type_key p of
                  Some k \<Rightarrow>
                    if k \<in> fst ` set msgdict then Inl (RuntimeError_type_key k (type_of message))
                    else Inr (json_dumps env (JObj (AList.update k (JInt m_id) msgdict)))
                | None \<Rightarrow>
                    Inr (json_dumps env (JObj [(''m'', JObj msgdict), (''t'', JInt m_id)])))))"

definition encode_message :: "pyenv \<Rightarrow> MessageProtocol \<Rightarrow> pyobject \<Rightarrow> error + string" where
  "encode_message env p message = protocol_encode env p message (message_ids_by_type p) ''message''"

definition encode_response :: "pyenv \<Rightarrow> MessageProtocol \<Rightarrow> pyobject \<Rightarrow> error + string" where
  "encode_response env p response =
     protocol_encode env p response (response_ids_by_type p) ''response''"

text \<open>
  \<^verbatim>\<open>encode_error_response\<close>. \<open>format_exc\<close> is what \<^verbatim>\<open>traceback.format_exc()\<close> returns at the
  call. The first component of the result is what the call logs.
\<close>

definition encode_error_response ::
  "pyenv \<Rightarrow> MessageProtocol \<Rightarrow> exception \<Rightarrow> string \<Rightarrow> string list \<times> (error + string)" where
  "encode_error_response env p exc format_exc =
     (if log_remote_exceptions p then [''Error handling message.''] else [],
      encode_response env p
        (if is_CleanError exc \<and> preserve_clean_errors p
         then ErrorResponse (str_of exc) CLEAN
         else ErrorResponse
                (if trusted_sender p then format_exc else ''An unknown error has occurred.'')
                OTHER))"

subsection \<open>Decoding\<close>

fun isinstance_dict :: "json \<Rightarrow> bool" where
  "isinstance_dict (JObj d) = True"
| "isinstance_dict v = False"

text \<open>\<^verbatim>\<open>isinstance(m_id, int)\<close>: \<^verbatim>\<open>bool\<close> is a subclass of \<^verbatim>\<open>int\<close>.\<close>

fun isinstance_int :: "json \<Rightarrow> bool" where
  "isinstance_int (JInt i) = True"
| "isinstance_int (JBool b) = True"
| "isinstance_int v = False"

text \<open>\<^verbatim>\<open>msgfull.get(key)\<close> and \<^verbatim>\<open>msgfull.pop(key)\<close>, on whatever \<^verbatim>\<open>json.loads\<close> returned:
  only a dictionary has \<^verbatim>\<open>get\<close>; a list has a \<^verbatim>\<open>pop\<close> that takes an index.\<close>

fun dict_get :: "json \<Rightarrow> string \<Rightarrow> error + json" where
  "dict_get (JObj d) k = Inr (case map_of d k of None \<Rightarrow> JNull | Some v \<Rightarrow> v)"
| "dict_get v k = Inl (AttributeError ''get'')"

fun dict_pop :: "json \<Rightarrow> string \<Rightarrow> error + json \<times> json" where
  "dict_pop (JObj d) k =
     (case map_of d k of None \<Rightarrow> Inl (KeyError k) | Some v \<Rightarrow> Inr (v, JObj (AList.delete k d)))"
| "dict_pop (JArr xs) k = Inl TypeError_list_index"
| "dict_pop v k = Inl (AttributeError ''pop'')"

text \<open>\<^verbatim>\<open>types_by_id.get(m_id)\<close>: the keys are integers; \<^verbatim>\<open>True\<close> and \<^verbatim>\<open>False\<close> hash and
  compare as 1 and 0; lists and dictionaries are unhashable.\<close>

fun types_get :: "(int \<times> pyclass) list \<Rightarrow> json \<Rightarrow> error + pyclass option" where
  "types_get types_by_id (JInt i) = Inr (map_of types_by_id i)"
| "types_get types_by_id (JBool b) = Inr (map_of types_by_id (if b then 1 else 0))"
| "types_get types_by_id JNull = Inr None"
| "types_get types_by_id (JStr s) = Inr None"
| "types_get types_by_id (JArr xs) = Inl TypeError_unhashable"
| "types_get types_by_id (JObj d) = Inl TypeError_unhashable"

text \<open>The id and the payload of an envelope, by the framing.\<close>

definition envelope_parts :: "pyenv \<Rightarrow> MessageProtocol \<Rightarrow> json \<Rightarrow> error + json \<times> json" where
  "envelope_parts env p msgfull =
     (case type_key p of
        Some k \<Rightarrow>
          (case dict_pop msgfull k of
             Inl e \<Rightarrow> Inl e
           | Inr (m_id, msgdict) \<Rightarrow>
               if debug env \<and> \<not> isinstance_int m_id then Inl AssertionError
               else Inr (m_id, msgdict))
      | None \<Rightarrow>
          (case dict_get msgfull ''t'' of
             Inl e \<Rightarrow> Inl e
           | Inr m_id \<Rightarrow>
               (case dict_get msgfull ''m'' of
                  Inl e \<Rightarrow> Inl e
                | Inr msgdict \<Rightarrow> Inr (m_id, msgdict))))"

text \<open>The special case of an error response: a local exception is raised in place of a
  returned value.\<close>

definition raise_remote_error :: "MessageProtocol \<Rightarrow> pyobject \<Rightarrow> error" where
  "raise_remote_error p out =
     (case (if preserve_clean_errors p
            then (case getattr out ''error_type'' of
                    Inl e \<Rightarrow> Inl e
                  | Inr t \<Rightarrow> Inr (t = PyErrorType CLEAN))
            else Inr False) of
        Inl e \<Rightarrow> e
      | Inr clean \<Rightarrow>
          (case getattr out ''error_message'' of
             Inl e \<Rightarrow> e
           | Inr msg \<Rightarrow> if clean then CleanError msg else RemoteError msg))"

definition protocol_decode ::
  "pyenv \<Rightarrow> MessageProtocol \<Rightarrow> string \<Rightarrow> (int \<times> pyclass) list \<Rightarrow> string
     \<Rightarrow> error + pyobject option" where
  "protocol_decode env p data types_by_id opname =
     (case json_loads env data of
        None \<Rightarrow> Inl JSONDecodeError
      | Some msgfull \<Rightarrow>
          if debug env \<and> \<not> isinstance_dict msgfull then Inl AssertionError
          else
            (case envelope_parts env p msgfull of
               Inl e \<Rightarrow> Inl e
             | Inr (m_id, msgdict) \<Rightarrow>
                 if debug env \<and> \<not> isinstance_int m_id then Inl AssertionError
                 else if debug env \<and> \<not> isinstance_dict msgdict then Inl AssertionError
                 else
                   (case types_get types_by_id m_id of
                      Inl e \<Rightarrow> Inl e
                    | Inr None \<Rightarrow> Inl (UnregisteredMessageIDError opname m_id)
                    | Inr (Some msgtype) \<Rightarrow>
                        (case dataclass_from_dict env msgtype msgdict of
                           None \<Rightarrow> Inl DataclassIOError
                         | Some flds \<Rightarrow>
                             (let out = Instance msgtype flds in
                              if issubclass_EmptyResponse (type_of out) then Inr None
                              else if issubclass_ErrorResponse (type_of out) then
                                (if debug env \<and> opname \<noteq> ''response'' then Inl AssertionError
                                 else Inl (raise_remote_error p out))
                              else Inr (Some out))))))"

text \<open>\<^verbatim>\<open>decode_message\<close> asserts that the result is a \<^verbatim>\<open>Message\<close>, \<^verbatim>\<open>decode_response\<close> that
  it is a \<^verbatim>\<open>Response\<close> or \<^verbatim>\<open>None\<close>. Both return what \<^verbatim>\<open>_decode\<close> returned, which is
  \<^verbatim>\<open>None\<close> for an empty response; without assertions \<^verbatim>\<open>decode_message\<close> returns it too.\<close>

definition decode_message :: "pyenv \<Rightarrow> MessageProtocol \<Rightarrow> string \<Rightarrow> error + pyobject option" where
  "decode_message env p data =
     (case protocol_decode env p data (message_types_by_id p) ''message'' of
        Inl e \<Rightarrow> Inl e
      | Inr out \<Rightarrow>
          if debug env \<and> \<not> (case out of None \<Rightarrow> False | Some obj \<Rightarrow> issubclass_Message (type_of obj))
          then Inl AssertionError
          else Inr out)"

definition decode_response :: "pyenv \<Rightarrow> MessageProtocol \<Rightarrow> string \<Rightarrow> error + pyobject option" where
  "decode_response env p data =
     (case protocol_decode env p data (response_types_by_id p) ''response'' of
        Inl e \<Rightarrow> Inl e
      | Inr out \<Rightarrow>
          if debug env \<and> \<not> (case out of None \<Rightarrow> True | Some obj \<Rightarrow> issubclass_Response (type_of obj))
          then Inl AssertionError
          else Inr out)"

subsection \<open>The envelope as a value\<close>

text \<open>The value \<^verbatim>\<open>out\<close> that \<^verbatim>\<open>_encode\<close> hands to \<^verbatim>\<open>json.dumps\<close> for the id \<open>m_id\<close> and the
  serialized payload \<open>msgdict\<close>, and the condition under which the inline framing does
  not raise.\<close>

definition wire_document :: "MessageProtocol \<Rightarrow> int \<Rightarrow> (string \<times> json) list \<Rightarrow> json" where
  "wire_document p m_id msgdict =
     (case type_key p of
        Some k \<Rightarrow> JObj (AList.update k (JInt m_id) msgdict)
      | None \<Rightarrow> JObj [(''m'', JObj msgdict), (''t'', JInt m_id)])"

definition no_collision :: "MessageProtocol \<Rightarrow> (string \<times> json) list \<Rightarrow> bool" where
  "no_collision p msgdict = (case type_key p of Some k \<Rightarrow> k \<notin> fst ` set msgdict | None \<Rightarrow> True)"

subsection \<open>A reference environment\<close>

text \<open>
  An executable instance of the parameters, on which the model runs on concrete inputs:
  a compact JSON printer (the separators of \<^verbatim>\<open>json.dumps(out, separators=(',', ':'))\<close>, no
  whitespace) and a JSON parser for documents of integers, strings of printable ASCII,
  booleans, \<^verbatim>\<open>null\<close>, arrays and objects, and a structural serializer for dataclasses
  whose attributes are such values. The wire form of an error response follows the
  spec: \<^verbatim>\<open>{"error_message": string, "error_type": "CLEAN"|"OTHER"}\<close>.
\<close>

definition quote_char :: char where "quote_char = CHR 0x22"
definition backslash_char :: char where "backslash_char = CHR 0x5C"

definition digit_char :: "nat \<Rightarrow> char" where
  "digit_char n = ''0123456789'' ! n"

fun nat_digits :: "nat \<Rightarrow> string" where
  "nat_digits n = (if n < 10 then [digit_char n] else nat_digits (n div 10) @ [digit_char (n mod 10)])"

fun escape_char :: "char \<Rightarrow> string" where
  "escape_char c = (if c = quote_char \<or> c = backslash_char then [backslash_char, c] else [c])"

definition quoted :: "string \<Rightarrow> string" where
  "quoted s = quote_char # concat (map escape_char s) @ [quote_char]"

fun json_text :: "json \<Rightarrow> string"
and json_elems :: "json list \<Rightarrow> string"
and json_members :: "(string \<times> json) list \<Rightarrow> string" where
  "json_text JNull = ''null''"
| "json_text (JBool b) = (if b then ''true'' else ''false'')"
| "json_text (JInt i) = (if i < 0 then CHR ''-'' # nat_digits (nat (- i)) else nat_digits (nat i))"
| "json_text (JStr s) = quoted s"
| "json_text (JArr xs) = ''['' @ json_elems xs @ '']''"
| "json_text (JObj kvs) = ''{'' @ json_members kvs @ ''}''"
| "json_elems [] = []"
| "json_elems [x] = json_text x"
| "json_elems (x # y # ys) = json_text x @ '','' @ json_elems (y # ys)"
| "json_members [] = []"
| "json_members [(k, v)] = quoted k @ '':'' @ json_text v"
| "json_members ((k, v) # kv # kvs) = quoted k @ '':'' @ json_text v @ '','' @ json_members (kv # kvs)"

definition is_ws :: "char \<Rightarrow> bool" where
  "is_ws c = (c = CHR '' '' \<or> c = CHR 0x09 \<or> c = CHR 0x0A \<or> c = CHR 0x0D)"

definition skip_ws :: "string \<Rightarrow> string" where
  "skip_ws s = dropWhile is_ws s"

definition digit_of :: "char \<Rightarrow> nat option" where
  "digit_of c = map_of (zip ''0123456789'' [0, 1, 2, 3, 4, 5, 6, 7, 8, 9]) c"

fun parse_string :: "string \<Rightarrow> string \<Rightarrow> (string \<times> string) option" where
  "parse_string [] acc = None"
| "parse_string (c # cs) acc =
     (if c = quote_char then Some (rev acc, cs)
      else if c = backslash_char then
        (case cs of
           [] \<Rightarrow> None
         | d # ds \<Rightarrow> if d = quote_char \<or> d = backslash_char then parse_string ds (d # acc) else None)
      else parse_string cs (c # acc))"

fun parse_digits :: "string \<Rightarrow> nat \<Rightarrow> nat \<times> string" where
  "parse_digits [] acc = (acc, [])"
| "parse_digits (c # cs) acc =
     (case digit_of c of None \<Rightarrow> (acc, c # cs) | Some d \<Rightarrow> parse_digits cs (10 * acc + d))"

definition parse_nat :: "string \<Rightarrow> (nat \<times> string) option" where
  "parse_nat s =
     (case s of
        [] \<Rightarrow> None
      | c # cs \<Rightarrow>
          (case digit_of c of
             None \<Rightarrow> None
           | Some d \<Rightarrow>
               (case parse_digits (c # cs) 0 of (n, r) \<Rightarrow>
                  if d = 0 \<and> r \<noteq> cs then None
                  else if r \<noteq> [] \<and> hd r \<in> set ''.eE'' then None
                  else Some (n, r))))"

definition parse_int :: "string \<Rightarrow> (json \<times> string) option" where
  "parse_int s =
     (case s of
        [] \<Rightarrow> None
      | c # cs \<Rightarrow>
          if c = CHR ''-'' then map_option (\<lambda>(n, r). (JInt (- int n), r)) (parse_nat cs)
          else map_option (\<lambda>(n, r). (JInt (int n), r)) (parse_nat s))"

fun parse_value :: "nat \<Rightarrow> string \<Rightarrow> (json \<times> string) option"
and parse_elems :: "nat \<Rightarrow> string \<Rightarrow> json list \<Rightarrow> (json list \<times> string) option"
and parse_members :: "nat \<Rightarrow> string \<Rightarrow> (string \<times> json) list \<Rightarrow> ((string \<times> json) list \<times> string) option" where
  "parse_value 0 s = None"
| "parse_value (Suc n) s =
     (case skip_ws s of
        [] \<Rightarrow> None
      | c # cs \<Rightarrow>
          if c = CHR ''{'' then
            (case skip_ws cs of
               [] \<Rightarrow> None
             | d # ds \<Rightarrow>
                 if d = CHR ''}'' then Some (JObj [], ds)
                 else map_option (\<lambda>(m, r). (JObj m, r)) (parse_members n (d # ds) []))
          else if c = CHR ''['' then
            (case skip_ws cs of
               [] \<Rightarrow> None
             | d # ds \<Rightarrow>
                 if d = CHR '']'' then Some (JArr [], ds)
                 else map_option (\<lambda>(xs, r). (JArr xs, r)) (parse_elems n (d # ds) []))
          else if c = quote_char then map_option (\<lambda>(x, r). (JStr x, r)) (parse_string cs [])
          else if take 4 (c # cs) = ''null'' then Some (JNull, drop 4 (c # cs))
          else if take 4 (c # cs) = ''true'' then Some (JBool True, drop 4 (c # cs))
          else if take 5 (c # cs) = ''false'' then Some (JBool False, drop 5 (c # cs))
          else parse_int (c # cs))"
| "parse_elems 0 s acc = None"
| "parse_elems (Suc n) s acc =
     (case parse_value n s of
        None \<Rightarrow> None
      | Some (v, r) \<Rightarrow>
          (case skip_ws r of
             [] \<Rightarrow> None
           | c # cs \<Rightarrow>
               if c = CHR '','' then parse_elems n cs (acc @ [v])
               else if c = CHR '']'' then Some (acc @ [v], cs)
               else None))"
| "parse_members 0 s acc = None"
| "parse_members (Suc n) s acc =
     (case skip_ws s of
        [] \<Rightarrow> None
      | c # cs \<Rightarrow>
          if c \<noteq> quote_char then None
          else
            (case parse_string cs [] of
               None \<Rightarrow> None
             | Some (k, r) \<Rightarrow>
                 (case skip_ws r of
                    [] \<Rightarrow> None
                  | d # ds \<Rightarrow>
                      if d \<noteq> CHR '':'' then None
                      else
                        (case parse_value n ds of
                           None \<Rightarrow> None
                         | Some (v, r2) \<Rightarrow>
                             (case skip_ws r2 of
                                [] \<Rightarrow> None
                              | e # es \<Rightarrow>
                                  if e = CHR '','' then parse_members n es (AList.update k v acc)
                                  else if e = CHR ''}'' then Some (AList.update k v acc, es)
                                  else None)))))"

definition ref_json_loads :: "string \<Rightarrow> json option" where
  "ref_json_loads s =
     (case parse_value (2 * length s + 2) s of
        None \<Rightarrow> None
      | Some (v, r) \<Rightarrow> if skip_ws r = [] then Some v else None)"

fun json_of_pyval :: "pyval \<Rightarrow> json" where
  "json_of_pyval PyNone = JNull"
| "json_of_pyval (PyBool b) = JBool b"
| "json_of_pyval (PyInt i) = JInt i"
| "json_of_pyval (PyStr s) = JStr s"
| "json_of_pyval (PyErrorType t) = JStr (case t of CLEAN \<Rightarrow> ''CLEAN'' | OTHER \<Rightarrow> ''OTHER'')"
| "json_of_pyval (PyList xs) = JArr (map json_of_pyval xs)"

fun pyval_of_json :: "json \<Rightarrow> pyval option" where
  "pyval_of_json JNull = Some PyNone"
| "pyval_of_json (JBool b) = Some (PyBool b)"
| "pyval_of_json (JInt i) = Some (PyInt i)"
| "pyval_of_json (JStr s) = Some (PyStr s)"
| "pyval_of_json (JArr xs) = map_option PyList (those (map pyval_of_json xs))"
| "pyval_of_json (JObj d) = None"

definition ref_dataclass_to_dict :: "pyobject \<Rightarrow> (string \<times> json) list option" where
  "ref_dataclass_to_dict obj = Some (map (\<lambda>(k, v). (k, json_of_pyval v)) (attrs obj))"

definition field_of_json :: "pyclass \<Rightarrow> string \<Rightarrow> json \<Rightarrow> pyval option" where
  "field_of_json cls k v =
     (if issubclass_ErrorResponse cls \<and> k = ''error_type'' then
        (if v = JStr ''CLEAN'' then Some (PyErrorType CLEAN)
         else if v = JStr ''OTHER'' then Some (PyErrorType OTHER)
         else None)
      else pyval_of_json v)"

definition ref_dataclass_from_dict :: "pyclass \<Rightarrow> json \<Rightarrow> (string \<times> pyval) list option" where
  "ref_dataclass_from_dict cls j =
     (case j of
        JObj d \<Rightarrow>
          if issubclass_ErrorResponse cls \<and> \<not> {''error_message'', ''error_type''} \<subseteq> fst ` set d
          then None
          else those (map (\<lambda>(k, v). map_option (Pair k) (field_of_json cls k v)) d)
      | _ \<Rightarrow> None)"

definition ref_env :: "bool \<Rightarrow> pyenv" where
  "ref_env dbg =
     \<lparr>debug = dbg, json_dumps = json_text, json_loads = ref_json_loads,
      is_ioprepped_dataclass = (\<lambda>c. True),
      dataclass_to_dict = ref_dataclass_to_dict,
      dataclass_from_dict = ref_dataclass_from_dict\<rparr>"

text \<open>The example of the spec: a message \<^verbatim>\<open>Ping\<close> with id 1 that declares the response
  \<^verbatim>\<open>Pong\<close>, and the response \<^verbatim>\<open>Pong\<close> with id 1, both with an empty payload.\<close>

definition Pong :: pyclass where
  "Pong = UserClass 2 ''Pong'' [Response_base] []"

definition Ping :: pyclass where
  "Ping = UserClass 1 ''Ping'' [Message_base] [Pong]"

definition ping_pong :: "string option \<Rightarrow> MessageProtocol" where
  "ping_pong tkey =
     \<lparr>message_types_by_id = [(1, Ping)], message_ids_by_type = [(Ping, 1)],
      response_types_by_id = [(1, Pong), (- 1, ErrorResponse_cls), (- 2, EmptyResponse_cls)],
      response_ids_by_type = [(Pong, 1), (ErrorResponse_cls, - 1), (EmptyResponse_cls, - 2)],
      type_key = tkey, preserve_clean_errors = True, log_remote_exceptions = True,
      trusted_sender = False\<rparr>"

text \<open>The same registry when the caller maps \<^verbatim>\<open>ErrorResponse\<close> to the id 5.\<close>

definition remapped :: MessageProtocol where
  "remapped =
     \<lparr>message_types_by_id = [(1, Ping)], message_ids_by_type = [(Ping, 1)],
      response_types_by_id = [(1, Pong), (5, ErrorResponse_cls), (- 2, EmptyResponse_cls)],
      response_ids_by_type = [(Pong, 1), (ErrorResponse_cls, 5), (EmptyResponse_cls, - 2)],
      type_key = None, preserve_clean_errors = True, log_remote_exceptions = True,
      trusted_sender = False\<rparr>"


definition tagged :: pyobject where
  "tagged = Instance Ping [(''tp'', PyInt 3)]"

text \<open>A clean error with the message \<^verbatim>\<open>bad input\<close>.\<close>

definition bad_input :: exception where
  "bad_input = \<lparr>is_CleanError = True, str_of = ''bad input''\<rparr>"

subsection \<open>A malformed envelope\<close>

text \<open>
  The malformed envelopes, in the words of the spec: the document is not a dictionary;
  the id is missing or is not an integer; under the wrapper framing the payload is
  missing or is not a dictionary. "An integer" is read as Python reads it in
  \<^verbatim>\<open>isinstance(m_id, int)\<close>, which a boolean passes. Under the inline framing the payload
  is the document itself.
\<close>

definition malformed_envelope :: "MessageProtocol \<Rightarrow> json \<Rightarrow> bool" where
  "malformed_envelope p msgfull =
     (case msgfull of
        JObj d \<Rightarrow>
          (case type_key p of
             Some k \<Rightarrow> (case map_of d k of None \<Rightarrow> True | Some m_id \<Rightarrow> \<not> isinstance_int m_id)
           | None \<Rightarrow>
               (case map_of d ''t'' of None \<Rightarrow> True | Some m_id \<Rightarrow> \<not> isinstance_int m_id) \<or>
               (case map_of d ''m'' of None \<Rightarrow> True | Some msgdict \<Rightarrow> \<not> isinstance_dict msgdict))
      | _ \<Rightarrow> True)"

text \<open>A second message class named \<^verbatim>\<open>Ping\<close>, and the protocols that the constructor
  builds without assertions: from \<^verbatim>\<open>Ping\<close> alone, with no response registered, and from
  the two classes named \<^verbatim>\<open>Ping\<close>.\<close>

definition Ping_twin :: pyclass where
  "Ping_twin = UserClass 3 ''Ping'' [Message_base] [Pong]"


definition twins :: MessageProtocol where
  "twins =
     \<lparr>message_types_by_id = [(1, Ping), (2, Ping_twin)],
      message_ids_by_type = [(Ping, 1), (Ping_twin, 2)],
      response_types_by_id = [(1, Pong), (- 1, ErrorResponse_cls), (- 2, EmptyResponse_cls)],
      response_ids_by_type = [(Pong, 1), (ErrorResponse_cls, - 1), (EmptyResponse_cls, - 2)],
      type_key = None, preserve_clean_errors = True, log_remote_exceptions = True,
      trusted_sender = False\<rparr>"

subsection \<open>Registries that agree\<close>

text \<open>The two dictionaries of a registry agree when the id of every registered class
  leads back to the class.\<close>

definition agree :: "(int \<times> pyclass) list \<Rightarrow> (pyclass \<times> int) list \<Rightarrow> bool" where
  "agree by_id by_type = (\<forall>c i. map_of by_type c = Some i \<longrightarrow> map_of by_id i = Some c)"

section \<open>Properties\<close>

subsection \<open>Encoding and decoding an envelope\<close>

lemma delete_absent: "k \<notin> fst ` set al \<Longrightarrow> AList.delete k al = al"
  by (induction al) auto

lemma protocol_encode_wire:
  assumes "map_of ids_by_type (type_of message) = Some m_id"
    and "dataclass_to_dict env message = Some msgdict"
    and "no_collision p msgdict"
  shows "protocol_encode env p message ids_by_type opname =
           Inr (json_dumps env (wire_document p m_id msgdict))"
  using assms
  by (auto simp add: protocol_encode_def wire_document_def no_collision_def split: option.splits)

lemma envelope_parts_wire:
  assumes "no_collision p msgdict" "type_key q = type_key p"
  shows "envelope_parts env q (wire_document p m_id msgdict) = Inr (JInt m_id, JObj msgdict)"
  using assms
  by (simp add: envelope_parts_def wire_document_def no_collision_def AList.update_conv'
      AList.delete_update_same delete_absent split: option.splits)

lemma protocol_decode_wire:
  assumes "json_loads env data = Some (wire_document p m_id msgdict)"
    and "no_collision p msgdict" "type_key q = type_key p"
    and "map_of types_by_id m_id = Some msgtype"
    and "dataclass_from_dict env msgtype (JObj msgdict) = Some flds"
  shows "protocol_decode env q data types_by_id opname =
           (if issubclass_EmptyResponse msgtype then Inr None
            else if issubclass_ErrorResponse msgtype then
              (if debug env \<and> opname \<noteq> ''response'' then Inl AssertionError
               else Inl (raise_remote_error q (Instance msgtype flds)))
            else Inr (Some (Instance msgtype flds)))"
proof -
  have d: "isinstance_dict (wire_document p m_id msgdict)"
    by (simp add: wire_document_def split: option.splits)
  show ?thesis
    using assms d by (simp add: protocol_decode_def envelope_parts_wire)
qed


subsection \<open>The registries\<close>

lemma register_types_keys:
  "register_types env b items (bi, bt) = Inr (bi', bt') \<Longrightarrow>
     fst ` set bi' = fst ` set bi \<union> fst ` set items \<and>
     fst ` set bt' = fst ` set bt \<union> snd ` set items"
proof (induction items arbitrary: bi bt)
  case Nil
  then show ?case by simp
next
  case (Cons x xs)
  obtain i c where x: "x = (i, c)" by (cases x)
  from Cons.prems have
    "register_types env b xs (AList.update i c bi, AList.update c i bt) = Inr (bi', bt')"
    by (simp add: x split: if_splits)
  from Cons.IH [OF this] show ?case
    by (auto simp add: x AList.dom_update)
qed

lemma register_types_distinct:
  "register_types env b items (bi, bt) = Inr (bi', bt') \<Longrightarrow> distinct (map fst bt) \<Longrightarrow>
     distinct (map fst bt')"
proof (induction items arbitrary: bi bt)
  case Nil
  then show ?case by simp
next
  case (Cons x xs)
  obtain i c where x: "x = (i, c)" by (cases x)
  from Cons.prems have
    "register_types env b xs (AList.update i c bi, AList.update c i bt) = Inr (bi', bt')"
    by (simp add: x split: if_splits)
  from Cons.IH [OF this] Cons.prems(2) show ?case
    by (simp add: AList.distinct_update)
qed

lemma register_types_by_type:
  "register_types env b items (bi, bt) = Inr (bi', bt') \<Longrightarrow> map_of bt' c = Some i \<Longrightarrow>
     (i, c) \<in> set items \<or> map_of bt c = Some i"
proof (induction items arbitrary: bi bt)
  case Nil
  then show ?case by simp
next
  case (Cons x xs)
  obtain j d where x: "x = (j, d)" by (cases x)
  from Cons.prems have
    "register_types env b xs (AList.update j d bi, AList.update d j bt) = Inr (bi', bt')"
    by (simp add: x split: if_splits)
  from Cons.IH [OF this Cons.prems(2)] show ?case
    by (auto simp add: x AList.update_conv' split: if_splits)
qed

lemma register_types_by_id:
  "register_types env b items (bi, bt) = Inr (bi', bt') \<Longrightarrow> map_of bi' i = Some c \<Longrightarrow>
     (i, c) \<in> set items \<or> map_of bi i = Some c"
proof (induction items arbitrary: bi bt)
  case Nil
  then show ?case by simp
next
  case (Cons x xs)
  obtain j d where x: "x = (j, d)" by (cases x)
  from Cons.prems have
    "register_types env b xs (AList.update j d bi, AList.update d j bt) = Inr (bi', bt')"
    by (simp add: x split: if_splits)
  from Cons.IH [OF this Cons.prems(2)] show ?case
    by (auto simp add: x AList.update_conv' split: if_splits)
qed

lemma register_types_debug:
  "register_types env b items (bi, bt) = Inr (bi', bt') \<Longrightarrow> debug env \<Longrightarrow> (i, c) \<in> set items \<Longrightarrow>
     0 \<le> i \<and> is_ioprepped_dataclass env c \<and> b c"
proof (induction items arbitrary: bi bt)
  case Nil
  then show ?case by simp
next
  case (Cons x xs)
  obtain j d where x: "x = (j, d)" by (cases x)
  from Cons.prems have r:
    "register_types env b xs (AList.update j d bi, AList.update d j bt) = Inr (bi', bt')"
    and h: "0 \<le> j \<and> is_ioprepped_dataclass env d \<and> b d"
    by (simp_all add: x split: if_splits)
  show ?case
  proof (cases "(i, c) = (j, d)")
    case True
    with h show ?thesis by simp
  next
    case False
    with Cons.prems(3) have "(i, c) \<in> set xs" by (auto simp add: x)
    from Cons.IH [OF r Cons.prems(2) this] show ?thesis .
  qed
qed


lemma map_of_None_iff: "map_of al k = None \<longleftrightarrow> k \<notin> fst ` set al"
  by (simp add: map_of_eq_None_iff)

lemma reg_if_not_cases:
  assumes "reg_if_not env c i (bi, bt) = Inr (bi', bt')"
  shows "(map_of bt c \<noteq> None \<and> bi' = bi \<and> bt' = bt) \<or>
         (map_of bt c = None \<and> bi' = AList.update i c bi \<and> bt' = AList.update c i bt \<and>
          (debug env \<longrightarrow> map_of bi i = None))"
  using assms by (auto simp add: reg_if_not_def map_of_None_iff split: if_splits)

lemma init_parts:
  assumes "MessageProtocol_init env mts rts tk pc lr ts = Inr p"
  shows "\<exists>b0 t0 b1 t1.
           register_types env issubclass_Message mts ([], []) =
             Inr (message_types_by_id p, message_ids_by_type p) \<and>
           register_types env issubclass_Response rts ([], []) = Inr (b0, t0) \<and>
           reg_if_not env ErrorResponse_cls (- 1) (b0, t0) = Inr (b1, t1) \<and>
           reg_if_not env EmptyResponse_cls (- 2) (b1, t1) =
             Inr (response_types_by_id p, response_ids_by_type p) \<and>
           (debug env \<longrightarrow>
              validate env mts (message_ids_by_type p) (response_ids_by_type p) = Inr ()) \<and>
           type_key p = tk \<and> preserve_clean_errors p = pc \<and>
           log_remote_exceptions p = lr \<and> trusted_sender p = ts"
  using assms
  by (auto simp add: MessageProtocol_init_def split: sum.splits prod.splits if_splits)

subsection \<open>The built-in response ids\<close>

text \<open>
  C9. After a construction that succeeds, \<^verbatim>\<open>ErrorResponse\<close> is registered with the id -1
  and \<^verbatim>\<open>EmptyResponse\<close> with the id -2, in both directions, unless the caller mapped
  that class itself; then the class has an id the caller gave it, and nothing is created
  at the reserved id (an entry there is the caller's own). The ids the caller gives are
  required not to be negative: with assertions enabled a construction that succeeds has
  only such ids, so the reserved ids are not among them.
\<close>

theorem builtin_ids:
  assumes init: "MessageProtocol_init env mts rts tk pc lr ts = Inr p"
  shows "(ErrorResponse_cls \<notin> snd ` set rts \<longrightarrow>
            map_of (response_ids_by_type p) ErrorResponse_cls = Some (- 1) \<and>
            map_of (response_types_by_id p) (- 1) = Some ErrorResponse_cls) \<and>
         (EmptyResponse_cls \<notin> snd ` set rts \<longrightarrow>
            map_of (response_ids_by_type p) EmptyResponse_cls = Some (- 2) \<and>
            map_of (response_types_by_id p) (- 2) = Some EmptyResponse_cls) \<and>
         (\<forall>c \<in> {ErrorResponse_cls, EmptyResponse_cls}. c \<in> snd ` set rts \<longrightarrow>
            (\<exists>i. (i, c) \<in> set rts \<and> map_of (response_ids_by_type p) c = Some i)) \<and>
         (ErrorResponse_cls \<in> snd ` set rts \<longrightarrow>
            (\<forall>c. map_of (response_types_by_id p) (- 1) = Some c \<longrightarrow> (- 1, c) \<in> set rts)) \<and>
         (EmptyResponse_cls \<in> snd ` set rts \<longrightarrow>
            (\<forall>c. map_of (response_types_by_id p) (- 2) = Some c \<longrightarrow> (- 2, c) \<in> set rts)) \<and>
         (debug env \<longrightarrow> (\<forall>(i, c) \<in> set rts. 0 \<le> i) \<and> (\<forall>(i, c) \<in> set mts. 0 \<le> i))"
proof -
  from init_parts [OF init] obtain b0 t0 b1 t1 where
    rm: "register_types env issubclass_Message mts ([], []) =
           Inr (message_types_by_id p, message_ids_by_type p)"
    and rr: "register_types env issubclass_Response rts ([], []) = Inr (b0, t0)"
    and r1: "reg_if_not env ErrorResponse_cls (- 1) (b0, t0) = Inr (b1, t1)"
    and r2: "reg_if_not env EmptyResponse_cls (- 2) (b1, t1) =
               Inr (response_types_by_id p, response_ids_by_type p)"
    by blast
  have keys0: "\<And>c. map_of t0 c = None \<longleftrightarrow> c \<notin> snd ` set rts"
    using register_types_keys [OF rr] by (simp add: map_of_None_iff)
  have t0: "\<And>c i. map_of t0 c = Some i \<Longrightarrow> (i, c) \<in> set rts"
    using register_types_by_type [OF rr] by fastforce
  have b0: "\<And>c i. map_of b0 i = Some c \<Longrightarrow> (i, c) \<in> set rts"
    using register_types_by_id [OF rr] by fastforce
  note c1 = reg_if_not_cases [OF r1] and c2 = reg_if_not_cases [OF r2]
  note k = keys0 [of ErrorResponse_cls] keys0 [of EmptyResponse_cls]
  have a: "ErrorResponse_cls \<notin> snd ` set rts \<longrightarrow>
            map_of (response_ids_by_type p) ErrorResponse_cls = Some (- 1) \<and>
            map_of (response_types_by_id p) (- 1) = Some ErrorResponse_cls"
    using c1 c2 k by (auto simp add: AList.update_conv')
  have b: "EmptyResponse_cls \<notin> snd ` set rts \<longrightarrow>
            map_of (response_ids_by_type p) EmptyResponse_cls = Some (- 2) \<and>
            map_of (response_types_by_id p) (- 2) = Some EmptyResponse_cls"
    using c1 c2 k by (auto simp add: AList.update_conv')
  have c: "\<forall>c \<in> {ErrorResponse_cls, EmptyResponse_cls}. c \<in> snd ` set rts \<longrightarrow>
            (\<exists>i. (i, c) \<in> set rts \<and> map_of (response_ids_by_type p) c = Some i)"
  proof (intro ballI impI)
    fix c assume "c \<in> {ErrorResponse_cls, EmptyResponse_cls}" and "c \<in> snd ` set rts"
    then obtain i where i: "map_of t0 c = Some i"
      using keys0 [of c] by auto
    then have "(i, c) \<in> set rts" by (rule t0)
    moreover have "map_of (response_ids_by_type p) c = Some i"
      using c1 c2 i \<open>c \<in> {ErrorResponse_cls, EmptyResponse_cls}\<close>
      by (auto simp add: AList.update_conv')
    ultimately show "\<exists>i. (i, c) \<in> set rts \<and> map_of (response_ids_by_type p) c = Some i"
      by blast
  qed
  have d: "ErrorResponse_cls \<in> snd ` set rts \<longrightarrow>
            (\<forall>c. map_of (response_types_by_id p) (- 1) = Some c \<longrightarrow> (- 1, c) \<in> set rts)"
    using c1 c2 k b0 by (auto simp add: AList.update_conv' split: if_splits)
  have e: "EmptyResponse_cls \<in> snd ` set rts \<longrightarrow>
            (\<forall>c. map_of (response_types_by_id p) (- 2) = Some c \<longrightarrow> (- 2, c) \<in> set rts)"
    using c1 c2 k b0 by (auto simp add: AList.update_conv' split: if_splits)
  have f: "debug env \<longrightarrow> (\<forall>(i, c) \<in> set rts. 0 \<le> i) \<and> (\<forall>(i, c) \<in> set mts. 0 \<le> i)"
    using register_types_debug [OF rr] register_types_debug [OF rm] by blast
  from a b c d e f show ?thesis by blast
qed

theorem builtin_ids_witness:
  "MessageProtocol_init (ref_env True) [(1, Ping)] [(1, Pong)] None True True False =
     Inr (ping_pong None) \<and>
   map_of (response_ids_by_type (ping_pong None)) ErrorResponse_cls = Some (- 1) \<and>
   map_of (response_types_by_id (ping_pong None)) (- 1) = Some ErrorResponse_cls \<and>
   map_of (response_ids_by_type (ping_pong None)) EmptyResponse_cls = Some (- 2) \<and>
   map_of (response_types_by_id (ping_pong None)) (- 2) = Some EmptyResponse_cls \<and>
   MessageProtocol_init (ref_env True) [(1, Ping)] [(1, Pong), (5, ErrorResponse_cls)]
     None True True False = Inr remapped \<and>
   map_of (response_ids_by_type remapped) ErrorResponse_cls = Some 5 \<and>
   map_of (response_types_by_id remapped) (- 1) = None"
proof -
  have i1: "MessageProtocol_init (ref_env True) [(1, Ping)] [(1, Pong)] None True True False =
              Inr (ping_pong None)"
    by code_simp
  have i2: "MessageProtocol_init (ref_env True) [(1, Ping)] [(1, Pong), (5, ErrorResponse_cls)]
              None True True False = Inr remapped"
    by code_simp
  have n: "map_of (response_types_by_id remapped) (- 1) = None"
    by (simp add: remapped_def)
  from builtin_ids [OF i1] builtin_ids [OF i2] i1 i2 n show ?thesis
    by (simp add: Pong_def)
qed

subsection \<open>The privacy boundary\<close>



subsection \<open>A collision with the type key\<close>

text \<open>
  C5. Under the inline framing, encoding a registered message whose serialized payload
  has the type key among its keys raises the \<^verbatim>\<open>RuntimeError\<close> of the collision: the call
  returns no wire string. Encoding is a function of its arguments and changes nothing.
\<close>

theorem inline_collision:
  assumes "type_key p = Some k"
    and "map_of (message_ids_by_type p) (type_of m) = Some i"
    and "dataclass_to_dict env m = Some d"
    and "k \<in> fst ` set d"
  shows "encode_message env p m = Inl (RuntimeError_type_key k (type_of m))"
  using assms by (simp add: encode_message_def protocol_encode_def)

theorem inline_collision_witness:
  "encode_message (ref_env True) (ping_pong (Some ''tp'')) tagged =
     Inl (RuntimeError_type_key ''tp'' Ping)"
proof -
  have k: "type_key (ping_pong (Some ''tp'')) = Some ''tp''"
    by (simp add: ping_pong_def)
  have i: "map_of (message_ids_by_type (ping_pong (Some ''tp'')))
             (type_of tagged) = Some 1"
    by (simp add: ping_pong_def tagged_def)
  have d: "dataclass_to_dict (ref_env True) tagged =
             Some [(''tp'', JInt 3)]"
    by (simp add: ref_env_def ref_dataclass_to_dict_def tagged_def)
  from inline_collision [OF k i d] show ?thesis by (simp add: tagged_def)
qed

subsection \<open>The round trip of a clean error\<close>

lemma raise_remote_error_clean:
  "preserve_clean_errors p \<Longrightarrow>
     raise_remote_error p (Instance c (attrs (ErrorResponse s CLEAN))) = CleanError (PyStr s)"
  by (simp add: raise_remote_error_def getattr_def ErrorResponse_def)

text \<open>
  C3, as amended. A sender and a receiver that both preserve clean errors, that agree on
  the framing and on the id of \<^verbatim>\<open>ErrorResponse\<close>: when the sender encodes a clean error
  with the message \<open>s\<close> (its \<^verbatim>\<open>str()\<close>), the serialized error response does not hold the
  type key of the inline framing, and the wire string and the payload come back through
  \<^verbatim>\<open>json\<close> and the deserializer as they were sent, then decoding the wire string raises
  \<^verbatim>\<open>CleanError(s)\<close>: no response is returned. Where the type key is a key of the
  serialized error response, \<^verbatim>\<open>encode_error_response\<close> itself raises and there is no wire
  string to decode.
\<close>

theorem clean_error_round_trip:
  assumes clean: "is_CleanError exc" "preserve_clean_errors ps" "preserve_clean_errors pr"
    and id_s: "map_of (response_ids_by_type ps) ErrorResponse_cls = Some i"
    and id_r: "map_of (response_types_by_id pr) i = Some ErrorResponse_cls"
    and key: "type_key pr = type_key ps"
    and ser: "dataclass_to_dict es (ErrorResponse (str_of exc) CLEAN) = Some d"
    and nc: "no_collision ps d"
    and json: "json_loads er (json_dumps es (wire_document ps i d)) = Some (wire_document ps i d)"
    and deser: "dataclass_from_dict er ErrorResponse_cls (JObj d) =
                  Some (attrs (ErrorResponse (str_of exc) CLEAN))"
  shows "snd (encode_error_response es ps exc tb) = Inr (json_dumps es (wire_document ps i d)) \<and>
         decode_response er pr (json_dumps es (wire_document ps i d)) =
           Inl (CleanError (PyStr (str_of exc)))"
proof -
  have t: "type_of (ErrorResponse (str_of exc) CLEAN) = ErrorResponse_cls"
    by (simp add: ErrorResponse_def)
  have enc: "snd (encode_error_response es ps exc tb) =
               Inr (json_dumps es (wire_document ps i d))"
    using clean protocol_encode_wire [of "response_ids_by_type ps"
        "ErrorResponse (str_of exc) CLEAN" i es d ps "''response''"] id_s ser nc
    by (simp add: encode_error_response_def encode_response_def t)
  have "protocol_decode er pr (json_dumps es (wire_document ps i d)) (response_types_by_id pr)
          ''response'' = Inl (CleanError (PyStr (str_of exc)))"
    using protocol_decode_wire [OF json nc key id_r deser, of "''response''"] clean
    by (simp add: raise_remote_error_clean)
  then have "decode_response er pr (json_dumps es (wire_document ps i d)) =
               Inl (CleanError (PyStr (str_of exc)))"
    by (simp add: decode_response_def)
  with enc show ?thesis by simp
qed

theorem clean_error_round_trip_witness:
  \<open>snd (encode_error_response (ref_env True) (ping_pong None) bad_input ''Traceback'') =
     Inr ''{"m":{"error_message":"bad input","error_type":"CLEAN"},"t":-1}'' \<and>
   decode_response (ref_env True) (ping_pong None)
     ''{"m":{"error_message":"bad input","error_type":"CLEAN"},"t":-1}'' =
     Inl (CleanError (PyStr ''bad input''))\<close>
proof -
  let ?d = "[(''error_message'', JStr ''bad input''), (''error_type'', JStr ''CLEAN'')]"
  have w: \<open>json_dumps (ref_env True) (wire_document (ping_pong None) (- 1) ?d) =
             ''{"m":{"error_message":"bad input","error_type":"CLEAN"},"t":-1}''\<close>
    by code_simp
  have c: "is_CleanError bad_input" "preserve_clean_errors (ping_pong None)"
    by (simp_all add: bad_input_def ping_pong_def)
  have s: "str_of bad_input = ''bad input''"
    by (simp add: bad_input_def)
  have i: "map_of (response_ids_by_type (ping_pong None)) ErrorResponse_cls = Some (- 1)"
    "map_of (response_types_by_id (ping_pong None)) (- 1) = Some ErrorResponse_cls"
    by (simp_all add: ping_pong_def Pong_def)
  have ser: "dataclass_to_dict (ref_env True) (ErrorResponse (str_of bad_input) CLEAN) = Some ?d"
    by (simp add: s ref_env_def ref_dataclass_to_dict_def ErrorResponse_def)
  have nc: "no_collision (ping_pong None) ?d"
    by (simp add: no_collision_def ping_pong_def)
  have j: "json_loads (ref_env True) (json_dumps (ref_env True)
             (wire_document (ping_pong None) (- 1) ?d)) =
           Some (wire_document (ping_pong None) (- 1) ?d)"
    by code_simp
  have de: "dataclass_from_dict (ref_env True) ErrorResponse_cls (JObj ?d) =
              Some (attrs (ErrorResponse (str_of bad_input) CLEAN))"
    by code_simp
  from clean_error_round_trip [OF c(1) c(2) c(2) i refl ser nc j de, of "''Traceback''"] w s
  show ?thesis by simp
qed

text \<open>The claim as stated fails for a protocol whose type key is \<^verbatim>\<open>error_message\<close>, a
  key of every serialized error response: the guard of the inline framing raises
  \<^verbatim>\<open>RuntimeError\<close> while the clean error is encoded.\<close>

theorem clean_error_collision_counterexample:
  "MessageProtocol_init (ref_env True) [(1, Ping)] [(1, Pong)] (Some ''error_message'')
     True True False = Inr (ping_pong (Some ''error_message'')) \<and>
   preserve_clean_errors (ping_pong (Some ''error_message'')) \<and>
   is_CleanError bad_input \<and> str_of bad_input = ''bad input'' \<and>
   dataclass_to_dict (ref_env True) (ErrorResponse ''bad input'' CLEAN) =
     Some [(''error_message'', JStr ''bad input''), (''error_type'', JStr ''CLEAN'')] \<and>
   snd (encode_error_response (ref_env True) (ping_pong (Some ''error_message'')) bad_input
          ''Traceback'') =
     Inl (RuntimeError_type_key ''error_message'' ErrorResponse_cls)"
  by code_simp

subsection \<open>The empty response\<close>

text \<open>
  C4. Decoding what \<^verbatim>\<open>encode_response\<close> made of \<^verbatim>\<open>EmptyResponse()\<close> returns \<^verbatim>\<open>None\<close>, not
  an instance, when the empty response is registered in both directions and the wire
  string and the payload come back through \<^verbatim>\<open>json\<close> and the deserializer. More generally
  \<^verbatim>\<open>decode_response\<close> returns \<^verbatim>\<open>None\<close> for every well-formed envelope whose id resolves
  to \<^verbatim>\<open>EmptyResponse\<close> (or to a class derived from it) and whose payload deserializes.
\<close>

theorem empty_collapse:
  "(map_of (response_ids_by_type p) EmptyResponse_cls = Some i \<and>
    map_of (response_types_by_id p) i = Some EmptyResponse_cls \<and>
    dataclass_to_dict env EmptyResponse = Some d \<and> no_collision p d \<and>
    json_loads env (json_dumps env (wire_document p i d)) = Some (wire_document p i d) \<and>
    dataclass_from_dict env EmptyResponse_cls (JObj d) = Some flds \<longrightarrow>
      encode_response env p EmptyResponse = Inr (json_dumps env (wire_document p i d)) \<and>
      decode_response env p (json_dumps env (wire_document p i d)) = Inr None) \<and>
   (json_loads env data = Some msgfull \<and> isinstance_dict msgfull \<and>
    envelope_parts env p msgfull = Inr (m_id, msgdict) \<and>
    isinstance_int m_id \<and> isinstance_dict msgdict \<and>
    types_get (response_types_by_id p) m_id = Inr (Some c) \<and> issubclass_EmptyResponse c \<and>
    dataclass_from_dict env c msgdict = Some flds' \<longrightarrow>
      decode_response env p data = Inr None)"
proof (intro conjI impI)
  assume h: "map_of (response_ids_by_type p) EmptyResponse_cls = Some i \<and>
    map_of (response_types_by_id p) i = Some EmptyResponse_cls \<and>
    dataclass_to_dict env EmptyResponse = Some d \<and> no_collision p d \<and>
    json_loads env (json_dumps env (wire_document p i d)) = Some (wire_document p i d) \<and>
    dataclass_from_dict env EmptyResponse_cls (JObj d) = Some flds"
  have t: "type_of EmptyResponse = EmptyResponse_cls"
    by (simp add: EmptyResponse_def)
  show "encode_response env p EmptyResponse = Inr (json_dumps env (wire_document p i d))"
    using h protocol_encode_wire [of "response_ids_by_type p" EmptyResponse i env d p "''response''"]
    by (simp add: encode_response_def t)
  have "protocol_decode env p (json_dumps env (wire_document p i d)) (response_types_by_id p)
          ''response'' = Inr None"
    using h protocol_decode_wire [of env "json_dumps env (wire_document p i d)" p i d p
        "response_types_by_id p" EmptyResponse_cls flds "''response''"]
    by simp
  then show "decode_response env p (json_dumps env (wire_document p i d)) = Inr None"
    by (simp add: decode_response_def)
next
  assume h: "json_loads env data = Some msgfull \<and> isinstance_dict msgfull \<and>
    envelope_parts env p msgfull = Inr (m_id, msgdict) \<and>
    isinstance_int m_id \<and> isinstance_dict msgdict \<and>
    types_get (response_types_by_id p) m_id = Inr (Some c) \<and> issubclass_EmptyResponse c \<and>
    dataclass_from_dict env c msgdict = Some flds'"
  then have "protocol_decode env p data (response_types_by_id p) ''response'' = Inr None"
    by (simp add: protocol_decode_def)
  then show "decode_response env p data = Inr None"
    by (simp add: decode_response_def)
qed

theorem empty_collapse_witness:
  \<open>encode_response (ref_env True) (ping_pong None) EmptyResponse = Inr ''{"m":{},"t":-2}'' \<and>
   decode_response (ref_env True) (ping_pong None) ''{"m":{},"t":-2}'' = Inr None\<close>
proof -
  have w: \<open>json_dumps (ref_env True) (wire_document (ping_pong None) (- 2) []) =
             ''{"m":{},"t":-2}''\<close>
    by code_simp
  have i: "map_of (response_ids_by_type (ping_pong None)) EmptyResponse_cls = Some (- 2)"
    "map_of (response_types_by_id (ping_pong None)) (- 2) = Some EmptyResponse_cls"
    by (simp_all add: ping_pong_def Pong_def)
  have ser: "dataclass_to_dict (ref_env True) EmptyResponse = Some []"
    by (simp add: ref_env_def ref_dataclass_to_dict_def EmptyResponse_def)
  have nc: "no_collision (ping_pong None) []"
    by (simp add: no_collision_def ping_pong_def)
  have j: "json_loads (ref_env True) (json_dumps (ref_env True)
             (wire_document (ping_pong None) (- 2) [])) =
           Some (wire_document (ping_pong None) (- 2) [])"
    by code_simp
  have de: "dataclass_from_dict (ref_env True) EmptyResponse_cls (JObj []) = Some []"
    by code_simp
  from empty_collapse [of "ping_pong None" "- 2" "ref_env True" "[]" "[]"] i ser nc j de w
  show ?thesis by simp
qed

subsection \<open>The round trip\<close>

text \<open>
  C1, as amended. A message \<open>m\<close> whose class is registered in both directions and derives
  neither from \<^verbatim>\<open>EmptyResponse\<close> nor from \<^verbatim>\<open>ErrorResponse\<close>: when its serialized payload
  does not hold the type key of the inline framing, and the wire string and the payload
  come back through \<^verbatim>\<open>json\<close> and the deserializer as they were sent, then encoding
  succeeds and decoding the wire string returns \<open>m\<close>. The same holds of a response \<open>r\<close>.
  The two built-in responses are outside: an empty response decodes to \<^verbatim>\<open>None\<close> and an
  error response raises.
\<close>

theorem round_trip:
  "(map_of (message_ids_by_type p) (type_of m) = Some i \<and>
    map_of (message_types_by_id p) i = Some (type_of m) \<and>
    issubclass_Message (type_of m) \<and>
    \<not> issubclass_EmptyResponse (type_of m) \<and> \<not> issubclass_ErrorResponse (type_of m) \<and>
    dataclass_to_dict env m = Some d \<and> no_collision p d \<and>
    json_loads env (json_dumps env (wire_document p i d)) = Some (wire_document p i d) \<and>
    dataclass_from_dict env (type_of m) (JObj d) = Some (attrs m) \<longrightarrow>
      encode_message env p m = Inr (json_dumps env (wire_document p i d)) \<and>
      decode_message env p (json_dumps env (wire_document p i d)) = Inr (Some m)) \<and>
   (map_of (response_ids_by_type p) (type_of r) = Some j \<and>
    map_of (response_types_by_id p) j = Some (type_of r) \<and>
    issubclass_Response (type_of r) \<and>
    \<not> issubclass_EmptyResponse (type_of r) \<and> \<not> issubclass_ErrorResponse (type_of r) \<and>
    dataclass_to_dict env r = Some e \<and> no_collision p e \<and>
    json_loads env (json_dumps env (wire_document p j e)) = Some (wire_document p j e) \<and>
    dataclass_from_dict env (type_of r) (JObj e) = Some (attrs r) \<longrightarrow>
      encode_response env p r = Inr (json_dumps env (wire_document p j e)) \<and>
      decode_response env p (json_dumps env (wire_document p j e)) = Inr (Some r))"
proof (intro conjI impI)
  assume h: "map_of (message_ids_by_type p) (type_of m) = Some i \<and>
    map_of (message_types_by_id p) i = Some (type_of m) \<and>
    issubclass_Message (type_of m) \<and>
    \<not> issubclass_EmptyResponse (type_of m) \<and> \<not> issubclass_ErrorResponse (type_of m) \<and>
    dataclass_to_dict env m = Some d \<and> no_collision p d \<and>
    json_loads env (json_dumps env (wire_document p i d)) = Some (wire_document p i d) \<and>
    dataclass_from_dict env (type_of m) (JObj d) = Some (attrs m)"
  show "encode_message env p m = Inr (json_dumps env (wire_document p i d))"
    using h protocol_encode_wire [of "message_ids_by_type p" m i env d p "''message''"]
    by (simp add: encode_message_def)
  have "protocol_decode env p (json_dumps env (wire_document p i d)) (message_types_by_id p)
          ''message'' = Inr (Some m)"
    using h protocol_decode_wire [of env "json_dumps env (wire_document p i d)" p i d p
        "message_types_by_id p" "type_of m" "attrs m" "''message''"]
    by simp
  with h show "decode_message env p (json_dumps env (wire_document p i d)) = Inr (Some m)"
    by (simp add: decode_message_def)
next
  assume h: "map_of (response_ids_by_type p) (type_of r) = Some j \<and>
    map_of (response_types_by_id p) j = Some (type_of r) \<and>
    issubclass_Response (type_of r) \<and>
    \<not> issubclass_EmptyResponse (type_of r) \<and> \<not> issubclass_ErrorResponse (type_of r) \<and>
    dataclass_to_dict env r = Some e \<and> no_collision p e \<and>
    json_loads env (json_dumps env (wire_document p j e)) = Some (wire_document p j e) \<and>
    dataclass_from_dict env (type_of r) (JObj e) = Some (attrs r)"
  show "encode_response env p r = Inr (json_dumps env (wire_document p j e))"
    using h protocol_encode_wire [of "response_ids_by_type p" r j env e p "''response''"]
    by (simp add: encode_response_def)
  have "protocol_decode env p (json_dumps env (wire_document p j e)) (response_types_by_id p)
          ''response'' = Inr (Some r)"
    using h protocol_decode_wire [of env "json_dumps env (wire_document p j e)" p j e p
        "response_types_by_id p" "type_of r" "attrs r" "''response''"]
    by simp
  with h show "decode_response env p (json_dumps env (wire_document p j e)) = Inr (Some r)"
    by (simp add: decode_response_def)
qed

theorem round_trip_witness:
  \<open>encode_message (ref_env True) (ping_pong None) tagged = Inr ''{"m":{"tp":3},"t":1}'' \<and>
   decode_message (ref_env True) (ping_pong None) ''{"m":{"tp":3},"t":1}'' = Inr (Some tagged) \<and>
   encode_response (ref_env True) (ping_pong None) (Instance Pong []) = Inr ''{"m":{},"t":1}'' \<and>
   decode_response (ref_env True) (ping_pong None) ''{"m":{},"t":1}'' =
     Inr (Some (Instance Pong []))\<close>
proof -
  let ?E = "ref_env True" and ?P = "ping_pong None"
  have w: \<open>json_dumps ?E (wire_document ?P 1 [(''tp'', JInt 3)]) = ''{"m":{"tp":3},"t":1}''\<close>
    \<open>json_dumps ?E (wire_document ?P 1 []) = ''{"m":{},"t":1}''\<close>
    by code_simp+
  have i: "map_of (message_ids_by_type ?P) (type_of tagged) = Some 1"
    "map_of (message_types_by_id ?P) 1 = Some (type_of tagged)"
    "map_of (response_ids_by_type ?P) (type_of (Instance Pong [])) = Some 1"
    "map_of (response_types_by_id ?P) 1 = Some (type_of (Instance Pong []))"
    by (simp_all add: ping_pong_def tagged_def)
  have c: "issubclass_Message (type_of tagged)" "\<not> issubclass_EmptyResponse (type_of tagged)"
    "\<not> issubclass_ErrorResponse (type_of tagged)"
    "issubclass_Response (type_of (Instance Pong []))"
    "\<not> issubclass_EmptyResponse (type_of (Instance Pong []))"
    "\<not> issubclass_ErrorResponse (type_of (Instance Pong []))"
    by (simp_all add: tagged_def Ping_def Pong_def)
  have ser: "dataclass_to_dict ?E tagged = Some [(''tp'', JInt 3)]"
    "dataclass_to_dict ?E (Instance Pong []) = Some []"
    by (simp_all add: ref_env_def ref_dataclass_to_dict_def tagged_def)
  have nc: "no_collision ?P [(''tp'', JInt 3)]" "no_collision ?P []"
    by (simp_all add: no_collision_def ping_pong_def)
  have j: "json_loads ?E (json_dumps ?E (wire_document ?P 1 [(''tp'', JInt 3)])) =
             Some (wire_document ?P 1 [(''tp'', JInt 3)])"
    "json_loads ?E (json_dumps ?E (wire_document ?P 1 [])) = Some (wire_document ?P 1 [])"
    by code_simp+
  have de: "dataclass_from_dict ?E (type_of tagged) (JObj [(''tp'', JInt 3)]) = Some (attrs tagged)"
    "dataclass_from_dict ?E (type_of (Instance Pong [])) (JObj []) = Some (attrs (Instance Pong []))"
    by code_simp+
  from round_trip [of ?P tagged 1 ?E "[(''tp'', JInt 3)]" "Instance Pong []" 1 "[]"]
    i c ser nc j de w
  show ?thesis by simp
qed

text \<open>The claim as stated fails at the built-in responses: the empty response comes back
  as \<^verbatim>\<open>None\<close>, the error response as a raised \<^verbatim>\<open>RemoteError\<close>.\<close>

theorem round_trip_builtin_counterexample:
  \<open>MessageProtocol_init (ref_env True) [(1, Ping)] [(1, Pong)] None True True False =
     Inr (ping_pong None) \<and>
   dataclass_to_dict (ref_env True) EmptyResponse = Some [] \<and>
   dataclass_from_dict (ref_env True) EmptyResponse_cls (JObj []) = Some (attrs EmptyResponse) \<and>
   encode_response (ref_env True) (ping_pong None) EmptyResponse = Inr ''{"m":{},"t":-2}'' \<and>
   json_loads (ref_env True) ''{"m":{},"t":-2}'' = Some (JObj [(''m'', JObj []), (''t'', JInt (- 2))]) \<and>
   decode_response (ref_env True) (ping_pong None) ''{"m":{},"t":-2}'' = Inr None \<and>
   decode_response (ref_env True) (ping_pong None) ''{"m":{},"t":-2}'' \<noteq> Inr (Some EmptyResponse) \<and>
   encode_response (ref_env True) (ping_pong None) (ErrorResponse ''boom'' OTHER) =
     Inr ''{"m":{"error_message":"boom","error_type":"OTHER"},"t":-1}'' \<and>
   decode_response (ref_env True) (ping_pong None)
     ''{"m":{"error_message":"boom","error_type":"OTHER"},"t":-1}'' =
     Inl (RemoteError (PyStr ''boom''))\<close>
  by code_simp

subsection \<open>An unknown id\<close>

lemma message_ids_not_negative:
  assumes init: "MessageProtocol_init env mts rts tk pc lr ts = Inr p"
    and ok: "debug env \<or> (\<forall>(j, c) \<in> set mts. 0 \<le> j)"
    and neg: "i < 0"
  shows "map_of (message_types_by_id p) i = None"
proof (rule ccontr)
  assume "map_of (message_types_by_id p) i \<noteq> None"
  then obtain c where c: "map_of (message_types_by_id p) i = Some c" by auto
  from init_parts [OF init] have rm:
    "register_types env issubclass_Message mts ([], []) =
       Inr (message_types_by_id p, message_ids_by_type p)"
    by blast
  from register_types_by_id [OF rm c] have m: "(i, c) \<in> set mts" by simp
  from ok have "0 \<le> i"
  proof
    assume "debug env"
    from register_types_debug [OF rm this m] show ?thesis by simp
  next
    assume "\<forall>(j, c) \<in> set mts. 0 \<le> j"
    with m show ?thesis by auto
  qed
  with neg show False by simp
qed

lemma protocol_decode_unregistered:
  assumes "json_loads env data = Some msgfull" "isinstance_dict msgfull"
    and "envelope_parts env p msgfull = Inr (JInt i, JObj d)"
    and "map_of types_by_id i = None"
  shows "protocol_decode env p data types_by_id opname =
           Inl (UnregisteredMessageIDError opname (JInt i))"
  using assms by (simp add: protocol_decode_def)

text \<open>
  C6. For an envelope that is well formed (a dictionary, an integer id, a dictionary as
  payload) and whose id is not a key of the registry, \<^verbatim>\<open>decode_message\<close> and
  \<^verbatim>\<open>decode_response\<close> raise \<^verbatim>\<open>UnregisteredMessageIDError\<close>. No negative id is a key of the
  message registry of a protocol that was constructed with assertions enabled, or from
  ids that are not negative as the constructor requires; so an envelope that carries the
  id -1 or -2 of a built-in response is rejected by \<^verbatim>\<open>decode_message\<close> with this error.
\<close>

theorem unknown_id:
  "json_loads env data = Some msgfull \<and> isinstance_dict msgfull \<and>
   envelope_parts env p msgfull = Inr (JInt i, JObj d) \<longrightarrow>
     (map_of (message_types_by_id p) i = None \<longrightarrow>
        decode_message env p data = Inl (UnregisteredMessageIDError ''message'' (JInt i))) \<and>
     (map_of (response_types_by_id p) i = None \<longrightarrow>
        decode_response env p data = Inl (UnregisteredMessageIDError ''response'' (JInt i))) \<and>
     (MessageProtocol_init env0 mts rts tk pc lr ts = Inr p \<and>
      (debug env0 \<or> (\<forall>(j, c) \<in> set mts. 0 \<le> j)) \<and> i < 0 \<longrightarrow>
        decode_message env p data = Inl (UnregisteredMessageIDError ''message'' (JInt i)))"
proof (intro impI conjI)
  assume h: "json_loads env data = Some msgfull \<and> isinstance_dict msgfull \<and>
    envelope_parts env p msgfull = Inr (JInt i, JObj d)"
  {
    assume "map_of (message_types_by_id p) i = None"
    with h protocol_decode_unregistered [of env data msgfull p i d "message_types_by_id p" "''message''"]
    show "decode_message env p data = Inl (UnregisteredMessageIDError ''message'' (JInt i))"
      by (simp add: decode_message_def)
  }
  note m = this
  {
    assume "map_of (response_types_by_id p) i = None"
    with h protocol_decode_unregistered [of env data msgfull p i d "response_types_by_id p" "''response''"]
    show "decode_response env p data = Inl (UnregisteredMessageIDError ''response'' (JInt i))"
      by (simp add: decode_response_def)
  }
  {
    assume "MessageProtocol_init env0 mts rts tk pc lr ts = Inr p \<and>
      (debug env0 \<or> (\<forall>(j, c) \<in> set mts. 0 \<le> j)) \<and> i < 0"
    then have "map_of (message_types_by_id p) i = None"
      using message_ids_not_negative [of env0 mts rts tk pc lr ts p i] by blast
    then show "decode_message env p data = Inl (UnregisteredMessageIDError ''message'' (JInt i))"
      by (rule m)
  }
qed

theorem unknown_id_witness:
  \<open>decode_message (ref_env True) (ping_pong None) ''{"m":{},"t":7}'' =
     Inl (UnregisteredMessageIDError ''message'' (JInt 7)) \<and>
   decode_response (ref_env True) (ping_pong None) ''{"m":{},"t":7}'' =
     Inl (UnregisteredMessageIDError ''response'' (JInt 7)) \<and>
   decode_message (ref_env True) (ping_pong None)
     ''{"m":{"error_message":"boom","error_type":"OTHER"},"t":-1}'' =
     Inl (UnregisteredMessageIDError ''message'' (JInt (- 1)))\<close>
proof -
  let ?E = "ref_env True" and ?P = "ping_pong None"
  let ?d = "[(''error_message'', JStr ''boom''), (''error_type'', JStr ''OTHER'')]"
  have l1: \<open>json_loads ?E ''{"m":{},"t":7}'' = Some (JObj [(''m'', JObj []), (''t'', JInt 7)])\<close>
    by code_simp
  have l2: \<open>json_loads ?E ''{"m":{"error_message":"boom","error_type":"OTHER"},"t":-1}'' =
              Some (JObj [(''m'', JObj ?d), (''t'', JInt (- 1))])\<close>
    by code_simp
  have e1: "envelope_parts ?E ?P (JObj [(''m'', JObj []), (''t'', JInt 7)]) = Inr (JInt 7, JObj [])"
    by (simp add: envelope_parts_def ping_pong_def)
  have e2: "envelope_parts ?E ?P (JObj [(''m'', JObj ?d), (''t'', JInt (- 1))]) =
              Inr (JInt (- 1), JObj ?d)"
    by (simp add: envelope_parts_def ping_pong_def)
  have n: "map_of (message_types_by_id ?P) 7 = None" "map_of (response_types_by_id ?P) 7 = None"
    by (simp_all add: ping_pong_def)
  have i: "MessageProtocol_init ?E [(1, Ping)] [(1, Pong)] None True True False = Inr ?P"
    by code_simp
  have dbg: "debug ?E" by (simp add: ref_env_def)
  from unknown_id [of ?E \<open>''{"m":{},"t":7}''\<close> "JObj [(''m'', JObj []), (''t'', JInt 7)]" ?P 7 "[]"]
    l1 e1 n
  have a: \<open>decode_message ?E ?P ''{"m":{},"t":7}'' =
             Inl (UnregisteredMessageIDError ''message'' (JInt 7)) \<and>
           decode_response ?E ?P ''{"m":{},"t":7}'' =
             Inl (UnregisteredMessageIDError ''response'' (JInt 7))\<close>
    by simp
  from unknown_id [of ?E \<open>''{"m":{"error_message":"boom","error_type":"OTHER"},"t":-1}''\<close>
      "JObj [(''m'', JObj ?d), (''t'', JInt (- 1))]" ?P "- 1" ?d ?E "[(1, Ping)]" "[(1, Pong)]"
      None True True False] l2 e2 i dbg
  have b: \<open>decode_message ?E ?P ''{"m":{"error_message":"boom","error_type":"OTHER"},"t":-1}'' =
             Inl (UnregisteredMessageIDError ''message'' (JInt (- 1)))\<close>
    by simp
  from a b show ?thesis by simp
qed

subsection \<open>Malformed envelopes\<close>

lemma protocol_decode_malformed:
  assumes "debug env" "json_loads env data = Some msgfull" "malformed_envelope p msgfull"
  shows "protocol_decode env p data types_by_id opname = Inl AssertionError \<or>
         (\<exists>k. type_key p = Some k \<and> protocol_decode env p data types_by_id opname = Inl (KeyError k))"
proof (cases msgfull)
  case (JObj d)
  show ?thesis
  proof (cases "type_key p")
    case None
    with assms JObj show ?thesis
      by (auto simp add: protocol_decode_def envelope_parts_def malformed_envelope_def
          split: option.splits)
  next
    case (Some k)
    with assms JObj show ?thesis
      by (auto simp add: protocol_decode_def envelope_parts_def malformed_envelope_def
          split: option.splits)
  qed
qed (use assms in \<open>simp_all add: protocol_decode_def\<close>)

text \<open>
  C7, as amended. A string that \<^verbatim>\<open>json.loads\<close> rejects raises its decode error. With
  assertions enabled, a malformed envelope makes \<^verbatim>\<open>decode_message\<close> and \<^verbatim>\<open>decode_response\<close>
  raise \<^verbatim>\<open>AssertionError\<close>, or \<^verbatim>\<open>KeyError\<close> when the type key of the inline framing is
  missing: never \<^verbatim>\<open>UnregisteredMessageIDError\<close>, never a value. A boolean id is not
  among the malformed envelopes here.
\<close>

theorem malformed_envelope_fails:
  "(json_loads env data = None \<longrightarrow>
      decode_message env p data = Inl JSONDecodeError \<and>
      decode_response env p data = Inl JSONDecodeError) \<and>
   (debug env \<and> json_loads env data = Some msgfull \<and> malformed_envelope p msgfull \<longrightarrow>
      (decode_message env p data = Inl AssertionError \<or>
       (\<exists>k. type_key p = Some k \<and> decode_message env p data = Inl (KeyError k))) \<and>
      (decode_response env p data = Inl AssertionError \<or>
       (\<exists>k. type_key p = Some k \<and> decode_response env p data = Inl (KeyError k))))"
proof (intro conjI impI)
  assume "json_loads env data = None"
  then show "decode_message env p data = Inl JSONDecodeError"
    and "decode_response env p data = Inl JSONDecodeError"
    by (simp_all add: decode_message_def decode_response_def protocol_decode_def)
next
  assume h: "debug env \<and> json_loads env data = Some msgfull \<and> malformed_envelope p msgfull"
  from h protocol_decode_malformed [of env data msgfull p "message_types_by_id p" "''message''"]
  show "decode_message env p data = Inl AssertionError \<or>
       (\<exists>k. type_key p = Some k \<and> decode_message env p data = Inl (KeyError k))"
    by (auto simp add: decode_message_def)
  from h protocol_decode_malformed [of env data msgfull p "response_types_by_id p" "''response''"]
  show "decode_response env p data = Inl AssertionError \<or>
       (\<exists>k. type_key p = Some k \<and> decode_response env p data = Inl (KeyError k))"
    by (auto simp add: decode_response_def)
qed

theorem malformed_envelope_fails_witness:
  \<open>decode_message (ref_env True) (ping_pong None) ''{"m":{},"t":"1"}'' = Inl AssertionError \<and>
   decode_response (ref_env True) (ping_pong None) ''{"m":{},"t":"1"}'' = Inl AssertionError \<and>
   decode_message (ref_env True) (ping_pong (Some ''tp'')) ''{"x":1}'' = Inl (KeyError ''tp'') \<and>
   decode_message (ref_env True) (ping_pong None) ''{"m":'' = Inl JSONDecodeError\<close>
proof -
  let ?E = "ref_env True"
  have dbg: "debug ?E" by (simp add: ref_env_def)
  have l1: \<open>json_loads ?E ''{"m":{},"t":"1"}'' = Some (JObj [(''m'', JObj []), (''t'', JStr ''1'')])\<close>
    by code_simp
  have l2: \<open>json_loads ?E ''{"x":1}'' = Some (JObj [(''x'', JInt 1)])\<close>
    by code_simp
  have l3: \<open>json_loads ?E ''{"m":'' = None\<close>
    by code_simp
  have m1: "malformed_envelope (ping_pong None) (JObj [(''m'', JObj []), (''t'', JStr ''1'')])"
    by (simp add: malformed_envelope_def ping_pong_def)
  have m2: "malformed_envelope (ping_pong (Some ''tp'')) (JObj [(''x'', JInt 1)])"
    by (simp add: malformed_envelope_def ping_pong_def)
  have k: "type_key (ping_pong None) = None" "type_key (ping_pong (Some ''tp'')) = Some ''tp''"
    by (simp_all add: ping_pong_def)
  have n: \<open>decode_message ?E (ping_pong (Some ''tp'')) ''{"x":1}'' \<noteq> Inl AssertionError\<close>
    by code_simp
  from malformed_envelope_fails [of ?E \<open>''{"m":{},"t":"1"}''\<close> "ping_pong None"
      "JObj [(''m'', JObj []), (''t'', JStr ''1'')]"] dbg l1 m1 k
  have a: \<open>decode_message ?E (ping_pong None) ''{"m":{},"t":"1"}'' = Inl AssertionError \<and>
           decode_response ?E (ping_pong None) ''{"m":{},"t":"1"}'' = Inl AssertionError\<close>
    by simp
  from malformed_envelope_fails [of ?E \<open>''{"x":1}''\<close> "ping_pong (Some ''tp'')"
      "JObj [(''x'', JInt 1)]"] dbg l2 m2 k n
  have b: \<open>decode_message ?E (ping_pong (Some ''tp'')) ''{"x":1}'' = Inl (KeyError ''tp'')\<close>
    by auto
  from malformed_envelope_fails [of ?E \<open>''{"m":''\<close> "ping_pong None"] l3
  have c: \<open>decode_message ?E (ping_pong None) ''{"m":'' = Inl JSONDecodeError\<close>
    by simp
  from a b c show ?thesis by simp
qed

text \<open>The claim as stated fails where assertions are disabled: a missing id is looked up
  as \<^verbatim>\<open>None\<close> and raises \<^verbatim>\<open>UnregisteredMessageIDError\<close>. With assertions enabled the id
  \<^verbatim>\<open>true\<close> passes \<^verbatim>\<open>isinstance(m_id, int)\<close> and is looked up as 1.\<close>

theorem malformed_envelope_counterexample:
  \<open>json_loads (ref_env False) ''{"m":{}}'' = Some (JObj [(''m'', JObj [])]) \<and>
   decode_message (ref_env False) (ping_pong None) ''{"m":{}}'' =
     Inl (UnregisteredMessageIDError ''message'' JNull) \<and>
   json_loads (ref_env True) ''{"m":{},"t":true}'' =
     Some (JObj [(''m'', JObj []), (''t'', JBool True)]) \<and>
   decode_message (ref_env True) (ping_pong None) ''{"m":{},"t":true}'' =
     Inr (Some (Instance Ping []))\<close>
  by code_simp

subsection \<open>The validation of the constructor\<close>

lemma register_types_error:
  "register_types env b items (bi, bt) = Inl e \<Longrightarrow> e = AssertionError"
proof (induction items arbitrary: bi bt)
  case Nil
  then show ?case by simp
next
  case (Cons x xs)
  obtain i c where x: "x = (i, c)" by (cases x)
  from Cons.prems Cons.IH show ?case
    by (auto simp add: x split: if_splits)
qed

lemma reg_if_not_error: "reg_if_not env c i reg = Inl e \<Longrightarrow> e = AssertionError"
  by (auto simp add: reg_if_not_def split: prod.splits if_splits)

lemma reg_if_not_keys:
  assumes "reg_if_not env c i (bi, bt) = Inr (bi', bt')"
  shows "fst ` set bt' = insert c (fst ` set bt)"
proof (cases "c \<in> fst ` set bt")
  case True
  with assms have "bt' = bt" by (simp add: reg_if_not_def)
  with True show ?thesis by (simp add: insert_absorb)
next
  case False
  with assms have "bt' = AList.update c i bt"
    by (auto simp add: reg_if_not_def split: if_splits)
  then show ?thesis by (simp add: AList.dom_update)
qed

lemma get_response_types_Message:
  "issubclass_Message m \<Longrightarrow> \<exists>rs. get_response_types m = Inr rs"
  by (cases m) simp_all

lemma collect_response_types_error:
  "collect_response_types items acc = Inl e \<Longrightarrow> \<forall>(i, m) \<in> set items. issubclass_Message m \<Longrightarrow>
     e = AssertionError"
proof (induction items arbitrary: acc)
  case Nil
  then show ?case by simp
next
  case (Cons x xs)
  obtain i m where x: "x = (i, m)" by (cases x)
  from Cons.prems(2) have "issubclass_Message m" by (simp add: x)
  then obtain rs where rs: "get_response_types m = Inr rs"
    using get_response_types_Message by blast
  from Cons.prems Cons.IH show ?case
    by (auto simp add: x rs split: if_splits)
qed



lemma check_response_types_error:
  "check_response_types env ids all = Inl e \<Longrightarrow>
     e = AssertionError \<or> (\<exists>c. e = ValueError_response_type c)"
  by (induction all) (auto split: if_splits)

lemma validate_error:
  assumes "validate env mts mbt rbt = Inl e" "\<forall>(i, m) \<in> set mts. issubclass_Message m"
  shows "e = AssertionError \<or> (\<exists>c. e = ValueError_response_type c) \<or>
         e = ValueError_duplicate_names"
  using assms collect_response_types_error [of mts "[]"] check_response_types_error [of env rbt]
  by (auto simp add: validate_def split: sum.splits if_splits)


lemma validate_names:
  assumes ok: "validate env mts mbt rbt = Inr u"
  shows "length (remdups (map (name_of \<circ> fst) mbt)) = length mts"
  using ok by (auto simp add: validate_def split: sum.splits if_splits)

lemma card_image_less:
  assumes "finite S" "a \<in> S" "b \<in> S" "a \<noteq> b" "f a = f b"
  shows "card (f ` S) < card S"
proof -
  have "f ` S = f ` (S - {a})"
    using assms by (auto simp add: image_iff)
  then have "card (f ` S) \<le> card (S - {a})"
    using assms(1) by (simp add: card_image_le)
  also have "\<dots> < card S"
    using assms(1,2) by (rule card_Diff1_less)
  finally show ?thesis .
qed

lemma init_debug_cases:
  assumes dbg: "debug env"
  shows "MessageProtocol_init env mts rts tk pc lr ts = Inl AssertionError \<or>
         (\<exists>mbi mbt rbt.
            register_types env issubclass_Message mts ([], []) = Inr (mbi, mbt) \<and>
            fst ` set rbt = snd ` set rts \<union> {ErrorResponse_cls, EmptyResponse_cls} \<and>
            ((\<exists>e. validate env mts mbt rbt = Inl e \<and>
                  MessageProtocol_init env mts rts tk pc lr ts = Inl e) \<or>
             (validate env mts mbt rbt = Inr () \<and>
              (\<exists>p. MessageProtocol_init env mts rts tk pc lr ts = Inr p))))"
proof (cases "register_types env issubclass_Message mts ([], [])")
  case (Inl e)
  with register_types_error [OF Inl] show ?thesis
    by (simp add: MessageProtocol_init_def)
next
  case m: (Inr mreg)
  obtain mbi mbt where mreg: "mreg = (mbi, mbt)" by (cases mreg)
  show ?thesis
  proof (cases "register_types env issubclass_Response rts ([], [])")
    case (Inl e)
    with register_types_error [OF Inl] m show ?thesis
      by (simp add: MessageProtocol_init_def mreg)
  next
    case r: (Inr reg0)
    obtain b0 t0 where reg0: "reg0 = (b0, t0)" by (cases reg0)
    show ?thesis
    proof (cases "reg_if_not env ErrorResponse_cls (- 1) reg0")
      case (Inl e)
      with reg_if_not_error [OF Inl] m r show ?thesis
        by (simp add: MessageProtocol_init_def mreg)
    next
      case r1: (Inr reg1)
      obtain b1 t1 where reg1: "reg1 = (b1, t1)" by (cases reg1)
      show ?thesis
      proof (cases "reg_if_not env EmptyResponse_cls (- 2) reg1")
        case (Inl e)
        with reg_if_not_error [OF Inl] m r r1 show ?thesis
          by (simp add: MessageProtocol_init_def mreg)
      next
        case r2: (Inr reg2)
        obtain rbi rbt where reg2: "reg2 = (rbi, rbt)" by (cases reg2)
        have k0: "fst ` set t0 = snd ` set rts"
          using register_types_keys [of env issubclass_Response rts "[]" "[]" b0 t0] r reg0
          by simp
        have k1: "fst ` set t1 = insert ErrorResponse_cls (fst ` set t0)"
          using reg_if_not_keys [of env ErrorResponse_cls "- 1" b0 t0 b1 t1] r1 reg0 reg1
          by simp
        have k2: "fst ` set rbt = insert EmptyResponse_cls (fst ` set t1)"
          using reg_if_not_keys [of env EmptyResponse_cls "- 2" b1 t1 rbi rbt] r2 reg1 reg2
          by simp
        have keys: "fst ` set rbt = snd ` set rts \<union> {ErrorResponse_cls, EmptyResponse_cls}"
          using k0 k1 k2 by auto
        have v: "(\<exists>e. validate env mts mbt rbt = Inl e \<and>
                  MessageProtocol_init env mts rts tk pc lr ts = Inl e) \<or>
             (validate env mts mbt rbt = Inr () \<and>
              (\<exists>p. MessageProtocol_init env mts rts tk pc lr ts = Inr p))"
          using dbg m r r1 r2
          by (cases "validate env mts mbt rbt")
            (simp_all add: MessageProtocol_init_def mreg reg2)
        from m keys v show ?thesis
          unfolding mreg by blast
      qed
    qed
  qed
qed

subsection \<open>Response coverage\<close>




subsection \<open>Unique names\<close>

text \<open>
  C10, as amended. With assertions enabled, when \<^verbatim>\<open>message_types\<close> holds two distinct
  classes with the same \<^verbatim>\<open>__name__\<close>, the constructor raises: an error of an earlier
  check, or the \<^verbatim>\<open>ValueError\<close> of the duplicate names when every other check passes.
\<close>

theorem unique_names:
  assumes dbg: "debug env"
    and ab: "(i, a) \<in> set mts" "(j, b) \<in> set mts" "a \<noteq> b" "name_of a = name_of b"
  shows "\<exists>e. MessageProtocol_init env mts rts tk pc lr ts = Inl e \<and>
           (e = AssertionError \<or> (\<exists>c. e = ValueError_response_type c) \<or>
            e = ValueError_duplicate_names)"
proof -
  from init_debug_cases [OF dbg, of mts rts tk pc lr ts]
  consider "MessageProtocol_init env mts rts tk pc lr ts = Inl AssertionError"
    | mbi mbt rbt where
      "register_types env issubclass_Message mts ([], []) = Inr (mbi, mbt)"
      "(\<exists>e. validate env mts mbt rbt = Inl e \<and>
          MessageProtocol_init env mts rts tk pc lr ts = Inl e) \<or>
       (validate env mts mbt rbt = Inr () \<and>
        (\<exists>p. MessageProtocol_init env mts rts tk pc lr ts = Inr p))"
    by blast
  then show ?thesis
  proof cases
    case 1
    then show ?thesis by simp
  next
    case 2
    have msgs: "\<forall>(i, m) \<in> set mts. issubclass_Message m"
      using register_types_debug [OF 2(1) dbg] by blast
    have keys: "fst ` set mbt = snd ` set mts"
      using register_types_keys [OF 2(1)] by simp
    have "card (name_of ` snd ` set mts) < card (snd ` set mts)"
      using card_image_less [of "snd ` set mts" a b name_of] ab
      by (metis List.finite_set finite_imageI image_eqI snd_conv)
    also have "\<dots> \<le> card (set mts)" by (simp add: card_image_le)
    also have "\<dots> \<le> length mts" by (rule card_length)
    finally have "card (name_of ` snd ` set mts) < length mts" .
    moreover have "set (map (name_of \<circ> fst) mbt) = name_of ` snd ` set mts"
    proof -
      have "set (map (name_of \<circ> fst) mbt) = name_of ` fst ` set mbt"
        by (simp add: image_image)
      with keys show ?thesis by simp
    qed
    ultimately have less: "length (remdups (map (name_of \<circ> fst) mbt)) < length mts"
      by (simp only: length_remdups_card_conv)
    from 2(2) show ?thesis
    proof
      assume "\<exists>e. validate env mts mbt rbt = Inl e \<and>
          MessageProtocol_init env mts rts tk pc lr ts = Inl e"
      with validate_error [OF _ msgs] show ?thesis by blast
    next
      assume "validate env mts mbt rbt = Inr () \<and>
        (\<exists>p. MessageProtocol_init env mts rts tk pc lr ts = Inr p)"
      then have "validate env mts mbt rbt = Inr ()" by simp
      from validate_names [OF this] less show ?thesis by simp
    qed
  qed
qed

theorem unique_names_witness:
  "MessageProtocol_init (ref_env True) [(1, Ping), (2, Ping_twin)] [(1, Pong)] None True True False =
     Inl ValueError_duplicate_names"
proof -
  have dbg: "debug (ref_env True)" by (simp add: ref_env_def)
  have ab: "(1, Ping) \<in> set [(1, Ping), (2, Ping_twin)]"
    "(2, Ping_twin) \<in> set [(1, Ping), (2, Ping_twin)]"
    "Ping \<noteq> Ping_twin" "name_of Ping = name_of Ping_twin"
    by (simp_all add: Ping_def Ping_twin_def)
  have v: "MessageProtocol_init (ref_env True) [(1, Ping), (2, Ping_twin)] [(1, Pong)]
             None True True False = Inl ValueError_duplicate_names"
    by code_simp
  from unique_names [OF dbg ab, of "[(1, Pong)]" None True True False] v show ?thesis by simp
qed

text \<open>The claim as stated fails where \<^verbatim>\<open>__debug__\<close> is false: the two classes named
  \<^verbatim>\<open>Ping\<close> are both registered.\<close>

theorem unique_names_counterexample:
  "Ping \<noteq> Ping_twin \<and> name_of Ping = name_of Ping_twin \<and>
   MessageProtocol_init (ref_env False) [(1, Ping), (2, Ping_twin)] [(1, Pong)]
     None True True False = Inr twins"
  by code_simp

subsection \<open>The registries of a constructed protocol\<close>

lemma agree_update:
  assumes "agree bi bt" "map_of bi i = None"
  shows "agree (AList.update i c bi) (AList.update c i bt)"
  using assms unfolding agree_def
  by (auto simp add: AList.update_conv')

lemma register_types_agree:
  "register_types env b items (bi, bt) = Inr (bi', bt') \<Longrightarrow>
   debug env \<or> (distinct (map fst items) \<and> fst ` set items \<inter> fst ` set bi = {}) \<Longrightarrow>
   agree bi bt \<Longrightarrow> agree bi' bt'"
proof (induction items arbitrary: bi bt)
  case Nil
  then show ?case by simp
next
  case (Cons x xs)
  obtain i c where x: "x = (i, c)" by (cases x)
  from Cons.prems(1) have r:
    "register_types env b xs (AList.update i c bi, AList.update c i bt) = Inr (bi', bt')"
    by (simp add: x split: if_splits)
  have free: "map_of bi i = None"
  proof (cases "debug env")
    case True
    with Cons.prems(1) show ?thesis by (simp add: x split: if_splits)
  next
    case False
    with Cons.prems(2) have "i \<notin> fst ` set bi" by (auto simp add: x)
    then show ?thesis by (simp add: map_of_None_iff)
  qed
  have next_ok: "debug env \<or>
    (distinct (map fst xs) \<and> fst ` set xs \<inter> fst ` set (AList.update i c bi) = {})"
    using Cons.prems(2) by (auto simp add: x AList.dom_update)
  from Cons.IH [OF r next_ok agree_update [OF Cons.prems(3) free]] show ?case .
qed

lemma reg_if_not_agree:
  assumes "reg_if_not env c i (bi, bt) = Inr (bi', bt')"
    and "debug env \<or> map_of bi i = None" "agree bi bt"
  shows "agree bi' bt'"
  using reg_if_not_cases [OF assms(1)] assms(2,3) agree_update [of bi bt i c]
  by auto

text \<open>
  A construction that succeeds, with assertions enabled or from dictionaries (distinct
  keys) whose response ids are not negative, yields registries that agree: every class
  that has an id is found again under that id. The classes that have an id are the
  message classes given, and the response classes given with the two built-in ones. So
  every class given to the constructor is registered in both directions, as the round
  trips above suppose.
\<close>

theorem init_registries_agree:
  assumes init: "MessageProtocol_init env mts rts tk pc lr ts = Inr p"
    and ok: "debug env \<or>
      (distinct (map fst mts) \<and> distinct (map fst rts) \<and> (\<forall>(i, c) \<in> set rts. 0 \<le> i))"
  shows "agree (message_types_by_id p) (message_ids_by_type p) \<and>
         agree (response_types_by_id p) (response_ids_by_type p) \<and>
         fst ` set (message_ids_by_type p) = snd ` set mts \<and>
         fst ` set (response_ids_by_type p) =
           snd ` set rts \<union> {ErrorResponse_cls, EmptyResponse_cls}"
proof -
  from init_parts [OF init] obtain b0 t0 b1 t1 where
    rm: "register_types env issubclass_Message mts ([], []) =
           Inr (message_types_by_id p, message_ids_by_type p)"
    and rr: "register_types env issubclass_Response rts ([], []) = Inr (b0, t0)"
    and r1: "reg_if_not env ErrorResponse_cls (- 1) (b0, t0) = Inr (b1, t1)"
    and r2: "reg_if_not env EmptyResponse_cls (- 2) (b1, t1) =
               Inr (response_types_by_id p, response_ids_by_type p)"
    by blast
  have e: "agree [] []" by (simp add: agree_def)
  have am: "agree (message_types_by_id p) (message_ids_by_type p)"
    using register_types_agree [OF rm _ e] ok by auto
  have a0: "agree b0 t0"
    using register_types_agree [OF rr _ e] ok by auto
  have k0: "fst ` set b0 = fst ` set rts" "fst ` set t0 = snd ` set rts"
    using register_types_keys [OF rr] by simp_all
  have f1: "debug env \<or> map_of b0 (- 1) = None"
    using ok k0 by (auto simp add: map_of_None_iff)
  have a1: "agree b1 t1"
    by (rule reg_if_not_agree [OF r1 f1 a0])
  have kb1: "fst ` set b1 \<subseteq> insert (- 1) (fst ` set rts)"
  proof -
    from reg_if_not_cases [OF r1]
    have "b1 = b0 \<or> b1 = AList.update (- 1) ErrorResponse_cls b0" by blast
    then show ?thesis
    proof
      assume "b1 = b0"
      with k0(1) show ?thesis by blast
    next
      assume "b1 = AList.update (- 1) ErrorResponse_cls b0"
      then have "fst ` set b1 = {- 1} \<union> fst ` set b0" by (simp only: AList.dom_update)
      with k0(1) show ?thesis by simp
    qed
  qed
  have f2: "debug env \<or> map_of b1 (- 2) = None"
  proof (cases "debug env")
    case False
    with ok have "\<forall>(i, c) \<in> set rts. 0 \<le> i" by simp
    then have "- 2 \<notin> insert (- 1) (fst ` set rts)" by auto
    with kb1 have "- 2 \<notin> fst ` set b1" by blast
    then show ?thesis by (simp add: map_of_None_iff)
  qed simp
  have a2: "agree (response_types_by_id p) (response_ids_by_type p)"
    by (rule reg_if_not_agree [OF r2 f2 a1])
  have km: "fst ` set (message_ids_by_type p) = snd ` set mts"
    using register_types_keys [OF rm] by simp
  have kr: "fst ` set (response_ids_by_type p) =
           snd ` set rts \<union> {ErrorResponse_cls, EmptyResponse_cls}"
    using reg_if_not_keys [OF r1] reg_if_not_keys [OF r2] k0 by auto
  from am a2 km kr show ?thesis by simp
qed

theorem init_registries_agree_witness:
  "MessageProtocol_init (ref_env True) [(1, Ping)] [(1, Pong)] None True True False =
     Inr (ping_pong None) \<and>
   agree (message_types_by_id (ping_pong None)) (message_ids_by_type (ping_pong None)) \<and>
   agree (response_types_by_id (ping_pong None)) (response_ids_by_type (ping_pong None))"
proof -
  have i: "MessageProtocol_init (ref_env True) [(1, Ping)] [(1, Pong)] None True True False =
             Inr (ping_pong None)"
    by code_simp
  have dbg: "debug (ref_env True)" by (simp add: ref_env_def)
  from init_registries_agree [OF i] dbg i show ?thesis by simp
qed

end
